theory Spec2Isabelle
  imports Complex_Main "HOL-Library.Log_Nat"
begin

section \<open>Data frames\<close>

text \<open>
  The scripts work on pandas data frames read from a CSV export.  A frame is modelled by
  its column names and its rows.  A metric cell is the number that \<open>read_csv\<close> followed by
  \<open>pd.to_numeric(..., errors='coerce')\<close> yields: \<open>None\<close> is NaN (an empty cell or a cell
  that is not a number).  The \<open>created_at\<close> cell of a row is kept apart: it is a parsable
  time stamp without a time zone (seconds since the epoch), an empty cell, or text that is no
  time stamp.  A number is a real number; the arithmetic that the scripts do themselves is
  rounded to double precision (section "Double precision"), the reductions inside pandas
  (\<open>mean\<close>, \<open>median\<close>, \<open>std\<close>, \<open>corr\<close>) are taken in exact arithmetic.
\<close>

datatype tcell = Time int | NaT | BadTime

record row =
  created_at :: tcell
  cells :: "string \<Rightarrow> real option"

record frame =
  columns :: "string list"
  rows :: "row list"

datatype date_arg = NoDate | Date int | BadDate

datatype exn =
    FileNotFoundError
  | EmptyDataError
  | KeyError string
  | ParserError
  | ValueError
  | TypeError
  | ZeroDivisionError
  | RenderError

datatype csv_file = NoFile | EmptyFile | Csv frame

definition len :: "frame \<Rightarrow> nat" where
  "len df = length (rows df)"

definition has_col :: "frame \<Rightarrow> string \<Rightarrow> bool" where
  "has_col df c = (c \<in> set (columns df))"

definition col :: "frame \<Rightarrow> string \<Rightarrow> real option list" where
  "col df c = map (\<lambda>r. cells r c) (rows df)"

definition filter_rows :: "(row \<Rightarrow> bool) \<Rightarrow> frame \<Rightarrow> frame" where
  "filter_rows P df = df\<lparr>rows := filter P (rows df)\<rparr>"

text \<open>\<open>df[target] = pd.to_numeric(df[src], errors='coerce')\<close> and \<open>df[target] = np.nan\<close>.\<close>

definition assign_col :: "string \<Rightarrow> string \<Rightarrow> frame \<Rightarrow> frame" where
  "assign_col target src df =
     \<lparr>columns = (if target \<in> set (columns df) then columns df else columns df @ [target]),
      rows = map (\<lambda>r. r\<lparr>cells := (cells r)(target := cells r src)\<rparr>) (rows df)\<rparr>"

definition assign_nan :: "string \<Rightarrow> frame \<Rightarrow> frame" where
  "assign_nan target df =
     \<lparr>columns = (if target \<in> set (columns df) then columns df else columns df @ [target]),
      rows = map (\<lambda>r. r\<lparr>cells := (cells r)(target := None)\<rparr>) (rows df)\<rparr>"

text \<open>\<open>df.dropna(subset=cs)\<close>, for columns that exist.\<close>

definition dropna_rows :: "string list \<Rightarrow> frame \<Rightarrow> frame" where
  "dropna_rows cs df = filter_rows (\<lambda>r. \<forall>c \<in> set cs. cells r c \<noteq> None) df"

text \<open>\<open>pd.to_datetime(..., errors='coerce')\<close>: text that is no time stamp becomes NaT.\<close>

fun coerce_time :: "tcell \<Rightarrow> tcell" where
  "coerce_time BadTime = NaT"
| "coerce_time t = t"

definition to_datetime_coerce :: "frame \<Rightarrow> frame" where
  "to_datetime_coerce df = df\<lparr>rows := map (\<lambda>r. r\<lparr>created_at := coerce_time (created_at r)\<rparr>) (rows df)\<rparr>"

text \<open>Comparisons of a time stamp column with a bound; NaT compares false.\<close>

fun time_ge :: "tcell \<Rightarrow> int \<Rightarrow> bool" where
  "time_ge (Time t) s = (s \<le> t)"
| "time_ge _ s = False"

fun time_le :: "tcell \<Rightarrow> int \<Rightarrow> bool" where
  "time_le (Time t) e = (t \<le> e)"
| "time_le _ e = False"

fun stamp_key :: "tcell \<Rightarrow> int" where
  "stamp_key (Time t) = t"
| "stamp_key _ = 0"

fun times :: "tcell list \<Rightarrow> int list" where
  "times [] = []"
| "times (Time t # ts) = t # times ts"
| "times (_ # ts) = times ts"

text \<open>\<open>Series.min()\<close> and \<open>Series.max()\<close> of a time stamp column skip NaT; NaT when nothing is left.\<close>

definition time_min :: "frame \<Rightarrow> int option" where
  "time_min df = (case times (map created_at (rows df)) of [] \<Rightarrow> None | t # ts \<Rightarrow> Some (fold min ts t))"

definition time_max :: "frame \<Rightarrow> int option" where
  "time_max df = (case times (map created_at (rows df)) of [] \<Rightarrow> None | t # ts \<Rightarrow> Some (fold max ts t))"

section \<open>Series statistics of pandas\<close>

fun dropna :: "real option list \<Rightarrow> real list" where
  "dropna [] = []"
| "dropna (None # vs) = dropna vs"
| "dropna (Some v # vs) = v # dropna vs"

definition series_mean :: "real option list \<Rightarrow> real option" where
  "series_mean vs = (let xs = dropna vs in
     if xs = [] then None else Some (sum_list xs / real (length xs)))"

definition series_min :: "real option list \<Rightarrow> real option" where
  "series_min vs = (case dropna vs of [] \<Rightarrow> None | x # xs \<Rightarrow> Some (fold min xs x))"

definition series_max :: "real option list \<Rightarrow> real option" where
  "series_max vs = (case dropna vs of [] \<Rightarrow> None | x # xs \<Rightarrow> Some (fold max xs x))"

definition series_median :: "real option list \<Rightarrow> real option" where
  "series_median vs = (let xs = sort (dropna vs); n = length xs in
     if n = 0 then None
     else if odd n then Some (xs ! (n div 2))
     else Some ((xs ! (n div 2 - 1) + xs ! (n div 2)) / 2))"

text \<open>Sample standard deviation (\<open>ddof=1\<close>); NaN with fewer than two values.\<close>

definition series_std :: "real option list \<Rightarrow> real option" where
  "series_std vs = (let xs = dropna vs; n = length xs in
     if n < 2 then None
     else let m = sum_list xs / real n in
       Some (sqrt (sum_list (map (\<lambda>x. (x - m)\<^sup>2) xs) / real (n - 1))))"

text \<open>
  \<open>df[[a, b]].corr().iloc[0, 1]\<close>: Pearson's coefficient over the rows where both cells
  are present; NaN when no row is left or when the divisor is zero.
\<close>

fun complete_pairs :: "(real option \<times> real option) list \<Rightarrow> (real \<times> real) list" where
  "complete_pairs [] = []"
| "complete_pairs ((Some x, Some y) # ps) = (x, y) # complete_pairs ps"
| "complete_pairs (_ # ps) = complete_pairs ps"

definition pearson :: "(real \<times> real) list \<Rightarrow> real option" where
  "pearson ps = (let n = length ps in
     if n < 1 then None
     else let mx = sum_list (map fst ps) / real n;
              my = sum_list (map snd ps) / real n;
              covxy = sum_list (map (\<lambda>(x, y). (x - mx) * (y - my)) ps);
              ssx = sum_list (map (\<lambda>(x, y). (x - mx)\<^sup>2) ps);
              ssy = sum_list (map (\<lambda>(x, y). (y - my)\<^sup>2) ps);
              divisor = sqrt (ssx * ssy)
          in if divisor \<noteq> 0 then Some (covxy / divisor) else None)"

definition corr :: "real option list \<Rightarrow> real option list \<Rightarrow> real option" where
  "corr xs ys = pearson (complete_pairs (zip xs ys))"

text \<open>Python's \<open>round(x, nd)\<close>: to the nearest multiple of \<open>10^-nd\<close>, ties to the even one.\<close>

definition py_round :: "real \<Rightarrow> nat \<Rightarrow> real" where
  "py_round x nd = (let y = x * 10 ^ nd; f = \<lfloor>y\<rfloor>; d = y - of_int f in
     of_int (if d < 1 / 2 then f else if 1 / 2 < d then f + 1
             else if even f then f else f + 1) / 10 ^ nd)"

section \<open>Double precision\<close>

text \<open>
  Python floats and numpy's \<open>float64\<close> are IEEE 754 doubles.  \<open>double x\<close> is the double
  nearest to the real number \<open>x\<close>, ties to the even significand: \<open>x\<close> is scaled by the power
  of two that brings it to 53 significant bits, rounded to an integer and scaled back.  The
  exponent range is not bounded (no overflow to infinity, no subnormal numbers).  Every
  arithmetic operation of the scripts is the exact operation followed by \<open>double\<close>.
\<close>

definition rint :: "real \<Rightarrow> int" where
  "rint y = (let f = \<lfloor>y\<rfloor>; d = y - of_int f in
     if d < 1 / 2 then f else if 1 / 2 < d then f + 1 else if even f then f else f + 1)"

text \<open>The exponent of a number that is not 0: the \<open>e\<close> with \<open>2^e \<le> |x| < 2^(e+1)\<close>.\<close>

definition expo :: "real \<Rightarrow> int" where
  "expo x = (if 1 \<le> \<bar>x\<bar> then bitlen \<lfloor>\<bar>x\<bar>\<rfloor> - 1 else - bitlen (\<lceil>1 / \<bar>x\<bar>\<rceil> - 1))"

definition double :: "real \<Rightarrow> real" where
  "double x = (if x = 0 then 0
     else of_int (rint (x * 2 powi (52 - expo x))) * 2 powi (expo x - 52))"

text \<open>
  \<open>round(x, nd)\<close> of a Python float: the decimal rounding of the exact value of \<open>x\<close>, as a
  double.
\<close>

definition float_round :: "real \<Rightarrow> nat \<Rightarrow> real" where
  "float_round x nd = double (py_round x nd)"

section \<open>analysis.py\<close>

text \<open>
  The \<open>error\<close> key of the result dictionary holds one of five messages; the key is absent
  (\<open>None\<close>) on success.
\<close>

datatype analysis_error =
    FileNotFound string
  | NoDataInFile
  | NoDataInRange
  | MissingRequiredColumns
  | ErrorAnalyzingData exn

record quality =
  completeness :: "(string \<times> real) list"
  outliers :: "(string \<times> real) list"
  quality_record_count :: nat

text \<open>
  The result dictionary.  \<open>warnings\<close> collects the printed "Warning: No valid ... values
  found" lines; the date range holds the two time stamps that the code formats with
  \<open>strftime\<close>.  A pattern table holds the three lists of its dictionary: the group keys and
  the two lists of means.
\<close>

record result =
  average_pm25 :: real
  average_pm10 :: real
  average_temperature :: real
  average_humidity :: real
  max_pm25 :: real
  max_pm10 :: real
  min_pm25 :: real
  min_pm10 :: real
  record_count :: nat
  date_range_start :: "int option"
  date_range_end :: "int option"
  error :: "analysis_error option"
  hourly_patterns :: "(int list \<times> real option list \<times> real option list) option"
  correlations :: "(string \<times> real option) list option"
  daily_patterns :: "(string list \<times> real option list \<times> real option list) option"
  data_quality :: "quality option"
  analysis_version :: "nat option"
  warnings :: "string list"

definition initial_result :: result where
  "initial_result =
     \<lparr>average_pm25 = 0, average_pm10 = 0, average_temperature = 0, average_humidity = 0,
      max_pm25 = 0, max_pm10 = 0, min_pm25 = 0, min_pm10 = 0, record_count = 0,
      date_range_start = None, date_range_end = None, error = None,
      hourly_patterns = None, correlations = None, daily_patterns = None,
      data_quality = None, analysis_version = None, warnings = []\<rparr>"

subsection \<open>Column resolution (lines 80-98)\<close>

definition pm25_col :: "frame \<Rightarrow> string option" where
  "pm25_col df = (if has_col df ''pm25'' then Some ''pm25''
     else if has_col df ''field3'' then Some ''field3'' else None)"

definition pm10_col :: "frame \<Rightarrow> string option" where
  "pm10_col df = (if has_col df ''pm10'' then Some ''pm10''
     else if has_col df ''field4'' then Some ''field4'' else None)"

definition temp_col :: "frame \<Rightarrow> string option" where
  "temp_col df = (if has_col df ''temperature'' then Some ''temperature''
     else if has_col df ''field2'' then Some ''field2'' else None)"

definition humidity_col :: "frame \<Rightarrow> string option" where
  "humidity_col df = (if has_col df ''humidity'' then Some ''humidity''
     else if has_col df ''field1'' then Some ''field1'' else None)"

subsection \<open>Date filters (lines 65-73)\<close>

definition filter_start :: "date_arg \<Rightarrow> frame \<Rightarrow> exn + frame" where
  "filter_start start_date df = (case start_date of
       NoDate \<Rightarrow> Inr df
     | BadDate \<Rightarrow> Inl ParserError
     | Date s \<Rightarrow> Inr (filter_rows (\<lambda>r. time_ge (created_at r) s) df))"

definition filter_end :: "date_arg \<Rightarrow> frame \<Rightarrow> exn + frame" where
  "filter_end end_date df = (case end_date of
       NoDate \<Rightarrow> Inr df
     | BadDate \<Rightarrow> Inl ParserError
     | Date e \<Rightarrow> Inr (filter_rows (\<lambda>r. time_le (created_at r) e) df))"

subsection \<open>Statistics (lines 116-151)\<close>

definition list_mean :: "real list \<Rightarrow> real" where
  "list_mean xs = sum_list xs / real (length xs)"

text \<open>The four printed warnings.\<close>

definition no_valid_pm25 :: string where
  "no_valid_pm25 = ''Warning: No valid PM2.5 values found''"

definition no_valid_pm10 :: string where
  "no_valid_pm10 = ''Warning: No valid PM10 values found''"

definition no_valid_temperature :: string where
  "no_valid_temperature = ''Warning: No valid temperature values found''"

definition no_valid_humidity :: string where
  "no_valid_humidity = ''Warning: No valid humidity values found''"

definition pm25_statistics :: "frame \<Rightarrow> string \<Rightarrow> result \<Rightarrow> result" where
  "pm25_statistics df c r = (case dropna (col df c) of
       [] \<Rightarrow> r\<lparr>warnings := warnings r @ [no_valid_pm25]\<rparr>
     | x # xs \<Rightarrow> r\<lparr>average_pm25 := list_mean (x # xs),
                   max_pm25 := fold max xs x, min_pm25 := fold min xs x\<rparr>)"

definition pm10_statistics :: "frame \<Rightarrow> string \<Rightarrow> result \<Rightarrow> result" where
  "pm10_statistics df c r = (case dropna (col df c) of
       [] \<Rightarrow> r\<lparr>warnings := warnings r @ [no_valid_pm10]\<rparr>
     | x # xs \<Rightarrow> r\<lparr>average_pm10 := list_mean (x # xs),
                   max_pm10 := fold max xs x, min_pm10 := fold min xs x\<rparr>)"

definition temperature_statistics :: "frame \<Rightarrow> string \<Rightarrow> result \<Rightarrow> result" where
  "temperature_statistics df c r = (case dropna (col df c) of
       [] \<Rightarrow> r\<lparr>warnings := warnings r @ [no_valid_temperature]\<rparr>
     | x # xs \<Rightarrow> r\<lparr>average_temperature := list_mean (x # xs)\<rparr>)"

definition humidity_statistics :: "frame \<Rightarrow> string \<Rightarrow> result \<Rightarrow> result" where
  "humidity_statistics df c r = (case dropna (col df c) of
       [] \<Rightarrow> r\<lparr>warnings := warnings r @ [no_valid_humidity]\<rparr>
     | x # xs \<Rightarrow> r\<lparr>average_humidity := list_mean (x # xs)\<rparr>)"

subsection \<open>Hourly and daily patterns (lines 207-238)\<close>

text \<open>
  \<open>df['created_at'].dt.hour\<close> and \<open>.dt.dayofweek\<close> (Monday is 0; the epoch was a Thursday) are
  NaN for NaT.  \<open>groupby\<close> sorts the keys and leaves the rows with a NaN key out; the mean of a
  group skips NaN.  The columns \<open>hour\<close> and \<open>day\<close> that the two functions add to the frame are
  not kept in the model.
\<close>

fun hour_of :: "tcell \<Rightarrow> int option" where
  "hour_of (Time t) = Some ((t div 3600) mod 24)"
| "hour_of _ = None"

fun dayofweek :: "tcell \<Rightarrow> int option" where
  "dayofweek (Time t) = Some ((t div 86400 + 3) mod 7)"
| "dayofweek _ = None"

fun present_keys :: "int option list \<Rightarrow> int list" where
  "present_keys [] = []"
| "present_keys (None # ks) = present_keys ks"
| "present_keys (Some k # ks) = k # present_keys ks"

definition group_keys :: "int option list \<Rightarrow> int list" where
  "group_keys ks = sort (remdups (present_keys ks))"

definition group_mean :: "int option list \<Rightarrow> real option list \<Rightarrow> int \<Rightarrow> real option" where
  "group_mean ks vs k = series_mean (map snd (filter (\<lambda>p. fst p = Some k) (zip ks vs)))"

definition calculate_hourly_patterns ::
  "frame \<Rightarrow> string \<Rightarrow> string \<Rightarrow> int list \<times> real option list \<times> real option list" where
  "calculate_hourly_patterns df pm25c pm10c =
     (let ks = map hour_of (map created_at (rows df)); hours = group_keys ks
      in (hours, map (group_mean ks (col df pm25c)) hours,
          map (group_mean ks (col df pm10c)) hours))"

definition days :: "string list" where
  "days = [''Monday'', ''Tuesday'', ''Wednesday'', ''Thursday'', ''Friday'', ''Saturday'',
           ''Sunday'']"

text \<open>
  With a NaT row the \<open>day\<close> column is a float column, and \<open>days[d]\<close> raises for the first
  group: a list index must be an integer.
\<close>

definition calculate_daily_patterns ::
  "frame \<Rightarrow> string \<Rightarrow> string \<Rightarrow> exn + (string list \<times> real option list \<times> real option list)" where
  "calculate_daily_patterns df pm25c pm10c =
     (let ks = map dayofweek (map created_at (rows df)); ds = group_keys ks
      in if None \<in> set ks \<and> ds \<noteq> [] then Inl TypeError
         else Inr (map (\<lambda>d. days ! nat d) ds, map (group_mean ks (col df pm25c)) ds,
                   map (group_mean ks (col df pm10c)) ds))"

subsection \<open>Correlations (lines 240-251)\<close>

text \<open>\<open>df[[a, b]].corr().iloc[0, 1]\<close>; selecting a column that is \<open>None\<close> or absent raises.\<close>

definition pair_corr :: "frame \<Rightarrow> string option \<Rightarrow> string option \<Rightarrow> exn + real option" where
  "pair_corr df a b = (case a of None \<Rightarrow> Inl (KeyError ''None'')
     | Some ca \<Rightarrow> (case b of None \<Rightarrow> Inl (KeyError ''None'')
       | Some cb \<Rightarrow>
           if \<not> has_col df ca then Inl (KeyError ca)
           else if \<not> has_col df cb then Inl (KeyError cb)
           else Inr (corr (col df ca) (col df cb))))"

text \<open>\<open>round(float(v), nd)\<close>; NaN stays NaN.\<close>

definition round_opt :: "nat \<Rightarrow> real option \<Rightarrow> real option" where
  "round_opt nd v = (case v of None \<Rightarrow> None | Some x \<Rightarrow> Some (float_round x nd))"

definition calculate_correlations ::
  "frame \<Rightarrow> string option \<Rightarrow> string option \<Rightarrow> string option \<Rightarrow> string option
     \<Rightarrow> exn + (string \<times> real option) list" where
  "calculate_correlations df pm25c pm10c tempc humc =
     (case pair_corr df pm25c tempc of Inl e \<Rightarrow> Inl e | Inr c1 \<Rightarrow>
      (case pair_corr df pm25c humc of Inl e \<Rightarrow> Inl e | Inr c2 \<Rightarrow>
       (case pair_corr df pm10c tempc of Inl e \<Rightarrow> Inl e | Inr c3 \<Rightarrow>
        (case pair_corr df pm10c humc of Inl e \<Rightarrow> Inl e | Inr c4 \<Rightarrow>
         (case pair_corr df pm25c pm10c of Inl e \<Rightarrow> Inl e | Inr c5 \<Rightarrow>
            Inr [(''pm25_temp'', round_opt 3 c1), (''pm25_humidity'', round_opt 3 c2),
                 (''pm10_temp'', round_opt 3 c3), (''pm10_humidity'', round_opt 3 c4),
                 (''pm25_pm10'', round_opt 3 c5)])))))"

subsection \<open>Data quality (lines 253-280)\<close>

definition select_col :: "frame \<Rightarrow> string option \<Rightarrow> exn + real option list" where
  "select_col df c = (case c of None \<Rightarrow> Inl (KeyError ''None'')
     | Some n \<Rightarrow> if has_col df n then Inr (col df n) else Inl (KeyError n))"

text \<open>\<open>(df[c].notna().sum() / total_records) * 100\<close>: a division and a multiplication of doubles.\<close>

definition notna_percent :: "real option list \<Rightarrow> nat \<Rightarrow> real" where
  "notna_percent vs total_records =
     double (double (real (length (dropna vs)) / real total_records) * 100)"

text \<open>\<open>abs(v - mean) > 3 * std\<close>; a comparison with NaN on either side is false.\<close>

definition is_outlier :: "real option \<Rightarrow> real option \<Rightarrow> real option \<Rightarrow> bool" where
  "is_outlier m s v = (case v of None \<Rightarrow> False | Some x \<Rightarrow>
     (case m of None \<Rightarrow> False | Some mv \<Rightarrow>
       (case s of None \<Rightarrow> False | Some sv \<Rightarrow> 3 * sv < \<bar>x - mv\<bar>)))"

definition outlier_percent :: "real option list \<Rightarrow> nat \<Rightarrow> real" where
  "outlier_percent vs total_records =
     double (double (real (length (filter (is_outlier (series_mean vs) (series_std vs)) vs))
       / real total_records) * 100)"

definition assess_data_quality ::
  "frame \<Rightarrow> string option \<Rightarrow> string option \<Rightarrow> string option \<Rightarrow> string option
     \<Rightarrow> exn + quality" where
  "assess_data_quality df pm25c pm10c tempc humc =
     (let total_records = len df in
      case select_col df pm25c of Inl e \<Rightarrow> Inl e | Inr v25 \<Rightarrow>
      (case select_col df pm10c of Inl e \<Rightarrow> Inl e | Inr v10 \<Rightarrow>
       (case select_col df tempc of Inl e \<Rightarrow> Inl e | Inr vt \<Rightarrow>
        (case select_col df humc of Inl e \<Rightarrow> Inl e | Inr vh \<Rightarrow>
          if total_records = 0 then Inl ZeroDivisionError
          else Inr \<lparr>completeness =
                      [(''pm25'', float_round (notna_percent v25 total_records) 2),
                       (''pm10'', float_round (notna_percent v10 total_records) 2),
                       (''temperature'', float_round (notna_percent vt total_records) 2),
                       (''humidity'', float_round (notna_percent vh total_records) 2)],
                    outliers =
                      [(''pm25'', float_round (outlier_percent v25 total_records) 2),
                       (''pm10'', float_round (outlier_percent v10 total_records) 2)],
                    quality_record_count = total_records\<rparr>))))"

subsection \<open>The entry point (lines 14-205)\<close>

text \<open>
  The extended block (lines 168-195) runs inside its own \<open>try\<close>: an exception ends the block
  and leaves the keys stored so far.
\<close>

definition extended_analysis ::
  "frame \<Rightarrow> string \<Rightarrow> string \<Rightarrow> string option \<Rightarrow> string option \<Rightarrow> result \<Rightarrow> result" where
  "extended_analysis df pm25c pm10c tempc humc r =
     (let r1 = r\<lparr>hourly_patterns := Some (calculate_hourly_patterns df pm25c pm10c)\<rparr>
      in case calculate_correlations df (Some pm25c) (Some pm10c) tempc humc of
        Inl e \<Rightarrow> r1
      | Inr cs \<Rightarrow>
         (case calculate_daily_patterns df pm25c pm10c of
            Inl e \<Rightarrow> r1\<lparr>correlations := Some cs\<rparr>
          | Inr dp \<Rightarrow>
             (case assess_data_quality df (Some pm25c) (Some pm10c) tempc humc of
                Inl e \<Rightarrow> r1\<lparr>correlations := Some cs, daily_patterns := Some dp\<rparr>
              | Inr q \<Rightarrow> r1\<lparr>correlations := Some cs, daily_patterns := Some dp,
                           data_quality := Some q, analysis_version := Some 2\<rparr>)))"

text \<open>Lines 116-151: the four blocks of statistics, in the order of the source.\<close>

definition basic_statistics ::
  "frame \<Rightarrow> string \<Rightarrow> string \<Rightarrow> string option \<Rightarrow> string option \<Rightarrow> result" where
  "basic_statistics df pm25c pm10c tempc humc =
     (let r1 = pm25_statistics df pm25c initial_result;
          r2 = pm10_statistics df pm10c r1;
          r3 = (case tempc of None \<Rightarrow> r2 | Some c \<Rightarrow> temperature_statistics df c r2)
      in (case humc of None \<Rightarrow> r3 | Some c \<Rightarrow> humidity_statistics df c r3))"

text \<open>
  Lines 106-198, once both pollutant columns are resolved.  Formatting the date range raises
  when the smallest time stamp is NaT; the outer handler then returns the dictionary as filled
  so far, with the error message added.
\<close>

definition analyze_resolved ::
  "frame \<Rightarrow> string \<Rightarrow> string \<Rightarrow> string option \<Rightarrow> string option \<Rightarrow> bool \<Rightarrow> result" where
  "analyze_resolved df pm25c pm10c tempc humc extended =
     (let r5 = (basic_statistics df pm25c pm10c tempc humc)\<lparr>record_count := len df\<rparr>
      in case time_min df of
           None \<Rightarrow> r5\<lparr>error := Some (ErrorAnalyzingData ValueError)\<rparr>
         | Some lo \<Rightarrow>
            (case time_max df of
               None \<Rightarrow> r5\<lparr>error := Some (ErrorAnalyzingData ValueError)\<rparr>
             | Some hi \<Rightarrow>
                (let r6 = r5\<lparr>date_range_start := Some lo, date_range_end := Some hi\<rparr>
                 in if extended then extended_analysis df pm25c pm10c tempc humc r6 else r6)))"

definition analyze_air_quality_data ::
  "string \<Rightarrow> csv_file \<Rightarrow> date_arg \<Rightarrow> date_arg \<Rightarrow> bool \<Rightarrow> result" where
  "analyze_air_quality_data csv_path f start_date end_date extended =
     (case f of
        NoFile \<Rightarrow> initial_result\<lparr>error := Some (FileNotFound csv_path)\<rparr>
      | EmptyFile \<Rightarrow> initial_result\<lparr>error := Some (ErrorAnalyzingData EmptyDataError)\<rparr>
      | Csv df0 \<Rightarrow>
          if len df0 = 0 then initial_result\<lparr>error := Some NoDataInFile\<rparr>
          else if \<not> has_col df0 ''created_at''
          then initial_result\<lparr>error := Some (ErrorAnalyzingData (KeyError ''created_at''))\<rparr>
          else (case filter_start start_date (to_datetime_coerce df0) of
              Inl e \<Rightarrow> initial_result\<lparr>error := Some (ErrorAnalyzingData e)\<rparr>
            | Inr df1 \<Rightarrow>
               (case filter_end end_date df1 of
                  Inl e \<Rightarrow> initial_result\<lparr>error := Some (ErrorAnalyzingData e)\<rparr>
                | Inr df \<Rightarrow>
                    if len df = 0 then initial_result\<lparr>error := Some NoDataInRange\<rparr>
                    else (case pm25_col df of
                        None \<Rightarrow> initial_result\<lparr>error := Some MissingRequiredColumns\<rparr>
                      | Some pm25c \<Rightarrow>
                         (case pm10_col df of
                            None \<Rightarrow> initial_result\<lparr>error := Some MissingRequiredColumns\<rparr>
                          | Some pm10c \<Rightarrow>
                              analyze_resolved df pm25c pm10c (temp_col df) (humidity_col df)
                                extended)))))"

section \<open>analyze.py\<close>

definition FIELD_MAPPING :: "(string \<times> string list) list" where
  "FIELD_MAPPING =
     [(''pm25'', [''field3'', ''pm25'']),
      (''pm10'', [''field4'', ''pm10'']),
      (''temperature'', [''field2'', ''temperature'']),
      (''humidity'', [''field1'', ''humidity''])]"

record level_info =
  max_value :: real
  level :: string
  color :: string

definition AQI_LEVELS :: "(string \<times> level_info list) list" where
  "AQI_LEVELS =
     [(''pm25'',
        [\<lparr>max_value = 12, level = ''Good'', color = ''green''\<rparr>,
         \<lparr>max_value = 354 / 10, level = ''Moderate'', color = ''yellow''\<rparr>,
         \<lparr>max_value = 554 / 10, level = ''Unhealthy for Sensitive Groups'', color = ''orange''\<rparr>,
         \<lparr>max_value = 1504 / 10, level = ''Unhealthy'', color = ''red''\<rparr>,
         \<lparr>max_value = 2504 / 10, level = ''Very Unhealthy'', color = ''purple''\<rparr>,
         \<lparr>max_value = 500, level = ''Hazardous'', color = ''maroon''\<rparr>]),
      (''pm10'',
        [\<lparr>max_value = 54, level = ''Good'', color = ''green''\<rparr>,
         \<lparr>max_value = 154, level = ''Moderate'', color = ''yellow''\<rparr>,
         \<lparr>max_value = 254, level = ''Unhealthy for Sensitive Groups'', color = ''orange''\<rparr>,
         \<lparr>max_value = 354, level = ''Unhealthy'', color = ''red''\<rparr>,
         \<lparr>max_value = 424, level = ''Very Unhealthy'', color = ''purple''\<rparr>,
         \<lparr>max_value = 604, level = ''Hazardous'', color = ''maroon''\<rparr>])]"

subsection \<open>load_data (lines 51-110)\<close>

fun find_field :: "frame \<Rightarrow> string list \<Rightarrow> string option" where
  "find_field df [] = None"
| "find_field df (field # rest) =
     (if has_col df field then Some field else find_field df rest)"

fun map_field :: "frame \<Rightarrow> string \<times> string list \<Rightarrow> frame" where
  "map_field df (target_field, possible_fields) =
     (case find_field df possible_fields of
        Some field \<Rightarrow> assign_col target_field field df
      | None \<Rightarrow> assign_nan target_field df)"

definition map_fields :: "frame \<Rightarrow> frame" where
  "map_fields df = foldl map_field df FIELD_MAPPING"

definition sort_values :: "frame \<Rightarrow> frame" where
  "sort_values df = df\<lparr>rows := sort_key (\<lambda>r. stamp_key (created_at r)) (rows df)\<rparr>"

text \<open>\<open>None\<close> is returned for a missing file and for every exception.\<close>

definition load_data :: "csv_file \<Rightarrow> date_arg \<Rightarrow> date_arg \<Rightarrow> frame option" where
  "load_data f start_date end_date =
     (case f of
        NoFile \<Rightarrow> None
      | EmptyFile \<Rightarrow> None
      | Csv df0 \<Rightarrow>
          if \<not> has_col df0 ''created_at'' then None
          else (let df1 = to_datetime_coerce df0;
                    df2 = filter_rows (\<lambda>r. created_at r \<noteq> NaT) df1;
                    df3 = sort_values df2;
                    df4 = map_fields df3
                in case filter_start start_date df4 of
                     Inl e \<Rightarrow> None
                   | Inr df5 \<Rightarrow>
                      (case filter_end end_date df5 of
                         Inl e \<Rightarrow> None
                       | Inr df6 \<Rightarrow> Some (dropna_rows [''pm25'', ''pm10''] df6))))"

subsection \<open>get_air_quality_level (lines 175-200)\<close>

fun first_level :: "real \<Rightarrow> level_info list \<Rightarrow> string \<times> string" where
  "first_level v [] = (''Extremely Hazardous'', ''black'')"
| "first_level v (info # levels) =
     (if v \<le> max_value info then (level info, color info)
      else first_level v levels)"

definition levels_for :: "string \<Rightarrow> level_info list" where
  "levels_for pollutant = (case map_of AQI_LEVELS pollutant of
       Some levels \<Rightarrow> levels
     | None \<Rightarrow> (case map_of AQI_LEVELS ''pm25'' of Some levels \<Rightarrow> levels | None \<Rightarrow> []))"

definition get_air_quality_level :: "real option \<Rightarrow> string \<Rightarrow> string \<times> string" where
  "get_air_quality_level v pollutant = (case v of
       None \<Rightarrow> (''Unknown'', ''gray'')
     | Some x \<Rightarrow> first_level x (levels_for pollutant))"

subsection \<open>calculate_statistics (lines 112-173)\<close>

record summary =
  s_mean :: "real option"
  s_median :: "real option"
  s_min :: "real option"
  s_max :: "real option"
  s_std :: "real option"
  air_quality :: "(string \<times> string) option"

record stats =
  n_count :: nat
  date_range :: "int \<times> int"
  pm25 :: summary
  pm10 :: summary
  temperature :: "summary option"
  humidity :: "summary option"

datatype statistics = NoDataAvailable | Statistics stats

definition summarize :: "real option list \<Rightarrow> summary" where
  "summarize vs =
     \<lparr>s_mean = series_mean vs, s_median = series_median vs, s_min = series_min vs,
      s_max = series_max vs, s_std = series_std vs, air_quality = None\<rparr>"

definition optional_summary :: "frame \<Rightarrow> string \<Rightarrow> summary option" where
  "optional_summary df c =
     (if has_col df c \<and> dropna (col df c) \<noteq> [] then Some (summarize (col df c)) else None)"

definition with_air_quality :: "string \<Rightarrow> summary \<Rightarrow> summary" where
  "with_air_quality pollutant s =
     s\<lparr>air_quality := Some (get_air_quality_level (s_mean s) pollutant)\<rparr>"

definition calculate_statistics :: "frame option \<Rightarrow> exn + statistics" where
  "calculate_statistics d = (case d of
       None \<Rightarrow> Inr NoDataAvailable
     | Some df \<Rightarrow>
         if len df = 0 then Inr NoDataAvailable
         else if \<not> has_col df ''created_at'' then Inl (KeyError ''created_at'')
         else (case time_min df of None \<Rightarrow> Inl ValueError | Some lo \<Rightarrow>
           (case time_max df of None \<Rightarrow> Inl ValueError | Some hi \<Rightarrow>
              if \<not> has_col df ''pm25'' then Inl (KeyError ''pm25'')
              else if \<not> has_col df ''pm10'' then Inl (KeyError ''pm10'')
              else Inr (Statistics
                \<lparr>n_count = len df, date_range = (lo, hi),
                 pm25 = with_air_quality ''pm25'' (summarize (col df ''pm25'')),
                 pm10 = with_air_quality ''pm10'' (summarize (col df ''pm10'')),
                 temperature = optional_summary df ''temperature'',
                 humidity = optional_summary df ''humidity''\<rparr>))))"

subsection \<open>analyze_data (lines 527-586)\<close>

datatype analyze_error = NoDataForAnalysis | Raised exn

record analyze_result =
  success :: bool
  statistics :: "statistics option"
  viz_type :: string
  viz_path :: "string option"
  viz_description :: "string option"
  analyze_error :: "analyze_error option"

text \<open>
  The chart functions are external: \<open>render\<close> stands for them.  It gets the kind of chart
  and the frame, and returns the web path (if any) and the description, or raises.
\<close>

definition chart_kind :: "string \<Rightarrow> string" where
  "chart_kind vt = (if vt = ''time_series'' then ''time_series''
     else if vt = ''daily_pattern'' then ''daily_pattern''
     else if vt = ''heatmap'' then ''heatmap''
     else if vt = ''correlation'' then ''correlation''
     else ''time_series'')"

definition analyze_data ::
  "(string \<Rightarrow> frame \<Rightarrow> exn + (string option \<times> string)) \<Rightarrow> csv_file \<Rightarrow> string
     \<Rightarrow> date_arg \<Rightarrow> date_arg \<Rightarrow> analyze_result" where
  "analyze_data render f vt start_date end_date =
     (let result = \<lparr>success = False, statistics = None, viz_type = vt, viz_path = None,
                     viz_description = None, analyze_error = None\<rparr>
      in case load_data f start_date end_date of
           None \<Rightarrow> result\<lparr>analyze_error := Some NoDataForAnalysis\<rparr>
         | Some df \<Rightarrow>
             if len df = 0 then result\<lparr>analyze_error := Some NoDataForAnalysis\<rparr>
             else (case calculate_statistics (Some df) of
                 Inl e \<Rightarrow> result\<lparr>analyze_error := Some (Raised e)\<rparr>
               | Inr st \<Rightarrow>
                  (case render (chart_kind vt) df of
                     Inl e \<Rightarrow> result\<lparr>statistics := Some st, analyze_error := Some (Raised e)\<rparr>
                   | Inr (path, description) \<Rightarrow>
                       result\<lparr>statistics := Some st, viz_path := path,
                              viz_description := Some description,
                              success := (path \<noteq> None)\<rparr>)))"

section \<open>correlation_large.py\<close>

record acc =
  pm25_temp_products :: real
  pm25_hum_products :: real
  pm25_sum :: real
  pm10_sum :: real
  temp_sum :: real
  hum_sum :: real
  pm25_squared_sum :: real
  temp_squared_sum :: real
  hum_squared_sum :: real
  count :: nat

definition initial_acc :: acc where
  "initial_acc =
     \<lparr>pm25_temp_products = 0, pm25_hum_products = 0, pm25_sum = 0, pm10_sum = 0,
      temp_sum = 0, hum_sum = 0, pm25_squared_sum = 0, temp_squared_sum = 0,
      hum_squared_sum = 0, count = 0\<rparr>"

subsection \<open>calculate_correlation (lines 146-158)\<close>

text \<open>
  The sums are \<open>float64\<close> numbers and \<open>n\<close> is an integer: every product, difference, square,
  square root and quotient is rounded.  \<open>np.sqrt\<close> of a negative number is NaN (no exception),
  NaN is not equal to zero, and the quotient is then NaN: \<open>None\<close> here.
\<close>

definition calculate_correlation ::
  "real \<Rightarrow> real \<Rightarrow> real \<Rightarrow> real \<Rightarrow> real \<Rightarrow> nat \<Rightarrow> real option" where
  "calculate_correlation xy_sum x_sum y_sum x_squared_sum y_squared_sum n =
     (let numerator = double (double (real n * xy_sum) - double (x_sum * y_sum));
          radicand = double
            (double (double (real n * x_squared_sum) - double (x_sum * x_sum))
             * double (double (real n * y_squared_sum) - double (y_sum * y_sum)))
      in if radicand < 0 then None
         else (let denominator = double (sqrt radicand)
               in if denominator = 0 then Some 0
                  else Some (double (numerator / denominator))))"

text \<open>
  The formula of the docstring, "Pearson correlation coefficient using aggregated values", in
  exact arithmetic: the reference for \<open>calculate_correlation\<close>.
\<close>

definition closed_form ::
  "real \<Rightarrow> real \<Rightarrow> real \<Rightarrow> real \<Rightarrow> real \<Rightarrow> nat \<Rightarrow> real option" where
  "closed_form xy_sum x_sum y_sum x_squared_sum y_squared_sum n =
     (let numerator = real n * xy_sum - x_sum * y_sum;
          radicand = (real n * x_squared_sum - x_sum\<^sup>2) * (real n * y_squared_sum - y_sum\<^sup>2)
      in if radicand < 0 then None
         else (let denominator = sqrt radicand
               in if denominator = 0 then Some 0 else Some (numerator / denominator)))"

subsection \<open>The chunk loop (lines 30-68)\<close>

text \<open>
  \<open>Series.sum()\<close> skips NaN and adds the values one after the other, in the order of the rows,
  rounding each partial sum.  The product of two columns is rounded cell by cell, and it is NaN
  where either cell is.  The metric columns are \<open>float64\<close> columns.
\<close>

definition series_sum :: "real option list \<Rightarrow> real" where
  "series_sum vs = foldl (\<lambda>s x. double (s + x)) 0 (dropna vs)"

fun series_mult :: "real option list \<Rightarrow> real option list \<Rightarrow> real option list" where
  "series_mult (Some x # xs) (Some y # ys) = Some (double (x * y)) # series_mult xs ys"
| "series_mult (_ # xs) (_ # ys) = None # series_mult xs ys"
| "series_mult _ _ = []"

definition map_stream_fields :: "frame \<Rightarrow> frame" where
  "map_stream_fields chunk =
     (let c1 = (if has_col chunk ''field3'' \<and> has_col chunk ''field4''
                then assign_col ''pm10'' ''field4'' (assign_col ''pm25'' ''field3'' chunk)
                else chunk)
      in if has_col c1 ''field1'' \<and> has_col c1 ''field2''
         then assign_col ''temperature'' ''field2'' (assign_col ''humidity'' ''field1'' c1)
         else c1)"

definition date_filter :: "int option \<Rightarrow> int option \<Rightarrow> frame \<Rightarrow> frame" where
  "date_filter startd endd chunk = (case startd of
       None \<Rightarrow> chunk
     | Some s \<Rightarrow> (case endd of
         None \<Rightarrow> chunk
       | Some e \<Rightarrow> filter_rows (\<lambda>r. time_ge (created_at r) s \<and> time_le (created_at r) e) chunk))"

definition accumulate :: "acc \<Rightarrow> frame \<Rightarrow> acc" where
  "accumulate a chunk =
     \<lparr>pm25_temp_products = double (pm25_temp_products a
         + series_sum (series_mult (col chunk ''pm25'') (col chunk ''temperature''))),
      pm25_hum_products = double (pm25_hum_products a
         + series_sum (series_mult (col chunk ''pm25'') (col chunk ''humidity''))),
      pm25_sum = double (pm25_sum a + series_sum (col chunk ''pm25'')),
      pm10_sum = double (pm10_sum a + series_sum (col chunk ''pm10'')),
      temp_sum = double (temp_sum a + series_sum (col chunk ''temperature'')),
      hum_sum = double (hum_sum a + series_sum (col chunk ''humidity'')),
      pm25_squared_sum = double (pm25_squared_sum a
         + series_sum (series_mult (col chunk ''pm25'') (col chunk ''pm25''))),
      temp_squared_sum = double (temp_squared_sum a
         + series_sum (series_mult (col chunk ''temperature'') (col chunk ''temperature''))),
      hum_squared_sum = double (hum_squared_sum a
         + series_sum (series_mult (col chunk ''humidity'') (col chunk ''humidity''))),
      count = count a + len chunk\<rparr>"

text \<open>
  One pass of the loop body.  The strict \<open>pd.to_datetime\<close> raises on text that is no time
  stamp; \<open>dropna\<close> raises when one of the four columns does not exist.
\<close>

definition process_chunk :: "int option \<Rightarrow> int option \<Rightarrow> acc \<Rightarrow> frame \<Rightarrow> exn + acc" where
  "process_chunk startd endd a chunk0 =
     (if \<not> has_col chunk0 ''created_at'' then Inl (KeyError ''created_at'')
      else if BadTime \<in> set (map created_at (rows chunk0)) then Inl ParserError
      else (let chunk1 = date_filter startd endd chunk0
            in if len chunk1 = 0 then Inr a
               else (let chunk2 = map_stream_fields chunk1
                     in if \<not> (has_col chunk2 ''pm25'' \<and> has_col chunk2 ''pm10''
                               \<and> has_col chunk2 ''temperature'' \<and> has_col chunk2 ''humidity'')
                        then Inl (KeyError ''dropna'')
                        else (let chunk = dropna_rows
                                    [''pm25'', ''pm10'', ''temperature'', ''humidity''] chunk2
                              in if len chunk = 0 then Inr a
                                 else Inr (accumulate a chunk)))))"

fun process_chunks :: "int option \<Rightarrow> int option \<Rightarrow> acc \<Rightarrow> frame list \<Rightarrow> exn + acc" where
  "process_chunks startd endd a [] = Inr a"
| "process_chunks startd endd a (chunk # chunks) =
     (case process_chunk startd endd a chunk of
        Inl e \<Rightarrow> Inl e
      | Inr a' \<Rightarrow> process_chunks startd endd a' chunks)"

text \<open>
  \<open>pd.read_csv(csv_path, chunksize=chunk_size)\<close>: the rows in pieces of \<open>chunk_size\<close>;
  a file with a header and no rows gives one empty chunk.
\<close>

function split_rows :: "nat \<Rightarrow> row list \<Rightarrow> row list list" where
  "split_rows k rs =
     (if k = 0 \<or> rs = [] then [] else take k rs # split_rows k (drop k rs))"
  by pat_completeness auto
termination
  by (relation "measure (\<lambda>(k, rs). length rs)") auto

definition read_csv_chunks :: "nat \<Rightarrow> frame \<Rightarrow> frame list" where
  "read_csv_chunks chunk_size df =
     (if rows df = [] then [df]
      else map (\<lambda>rs. df\<lparr>rows := rs\<rparr>) (split_rows chunk_size (rows df)))"

subsection \<open>create_correlation_large (lines 8-144)\<close>

text \<open>
  The function draws a chart and returns a description.  The model returns what the
  description prints: the "no data" text, or the two coefficients and the number of data
  points.  The chunk size (the constant 50000 of the source) is a parameter of
  \<open>create_correlation_chunked\<close>.
\<close>

datatype correlation_output =
    NoDataAvailableOutput
  | CorrelationOutput "real option" "real option" nat

definition to_bound :: "date_arg \<Rightarrow> exn + int option" where
  "to_bound d = (case d of NoDate \<Rightarrow> Inr None | Date t \<Rightarrow> Inr (Some t) | BadDate \<Rightarrow> Inl ParserError)"

definition finish :: "acc \<Rightarrow> correlation_output" where
  "finish a =
     (if count a = 0 then NoDataAvailableOutput
      else CorrelationOutput
        (calculate_correlation (pm25_temp_products a) (pm25_sum a) (temp_sum a)
           (pm25_squared_sum a) (temp_squared_sum a) (count a))
        (calculate_correlation (pm25_hum_products a) (pm25_sum a) (hum_sum a)
           (pm25_squared_sum a) (hum_squared_sum a) (count a))
        (count a))"

definition create_correlation_chunked ::
  "nat \<Rightarrow> csv_file \<Rightarrow> date_arg \<Rightarrow> date_arg \<Rightarrow> exn + correlation_output" where
  "create_correlation_chunked chunk_size f start_date end_date =
     (case to_bound start_date of Inl e \<Rightarrow> Inl e | Inr startd \<Rightarrow>
      (case to_bound end_date of Inl e \<Rightarrow> Inl e | Inr endd \<Rightarrow>
       (case f of
          NoFile \<Rightarrow> Inl FileNotFoundError
        | EmptyFile \<Rightarrow> Inl EmptyDataError
        | Csv df \<Rightarrow>
            if chunk_size = 0 then Inl ValueError
            else (case process_chunks startd endd initial_acc (read_csv_chunks chunk_size df) of
                Inl e \<Rightarrow> Inl e
              | Inr a \<Rightarrow> Inr (finish a)))))"

definition create_correlation_large ::
  "csv_file \<Rightarrow> date_arg \<Rightarrow> date_arg \<Rightarrow> exn + correlation_output" where
  "create_correlation_large = create_correlation_chunked 50000"

section \<open>Relabelling legacy columns\<close>

text \<open>
  The same data with the legacy column names replaced by the semantic ones:
  \<open>field3\<close> becomes \<open>pm25\<close>, \<open>field4\<close> becomes \<open>pm10\<close>, \<open>field2\<close> becomes \<open>temperature\<close> and
  \<open>field1\<close> becomes \<open>humidity\<close>.
\<close>

definition semantic_name :: "string \<Rightarrow> string" where
  "semantic_name c = (if c = ''field3'' then ''pm25'' else if c = ''field4'' then ''pm10''
     else if c = ''field2'' then ''temperature'' else if c = ''field1'' then ''humidity'' else c)"

definition relabel_cells :: "(string \<Rightarrow> real option) \<Rightarrow> string \<Rightarrow> real option" where
  "relabel_cells cs c = (if c = ''pm25'' then cs ''field3'' else if c = ''pm10'' then cs ''field4''
     else if c = ''temperature'' then cs ''field2'' else if c = ''humidity'' then cs ''field1''
     else if c = ''field1'' \<or> c = ''field2'' \<or> c = ''field3'' \<or> c = ''field4'' then None
     else cs c)"

definition relabel :: "frame \<Rightarrow> frame" where
  "relabel df =
     \<lparr>columns = map semantic_name (columns df),
      rows = map (\<lambda>r. r\<lparr>cells := relabel_cells (cells r)\<rparr>) (rows df)\<rparr>"

text \<open>What the statistics read from a row: the time stamp and the four semantic cells.\<close>

definition semantic_view ::
  "row \<Rightarrow> tcell \<times> real option \<times> real option \<times> real option \<times> real option" where
  "semantic_view r =
     (created_at r, cells r ''pm25'', cells r ''pm10'', cells r ''temperature'',
      cells r ''humidity'')"

definition legacy_only :: "frame \<Rightarrow> bool" where
  "legacy_only df = (\<not> has_col df ''pm25'' \<and> \<not> has_col df ''pm10''
     \<and> \<not> has_col df ''temperature'' \<and> \<not> has_col df ''humidity'')"

section \<open>Example data\<close>

text \<open>Two readings one hour apart, under the semantic column names.\<close>

definition two_rows :: frame where
  "two_rows =
     \<lparr>columns = [''created_at'', ''pm25'', ''pm10''],
      rows = [\<lparr>created_at = Time 0, cells = map_of [(''pm25'', 10), (''pm10'', 20)]\<rparr>,
              \<lparr>created_at = Time 3600, cells = map_of [(''pm25'', 30), (''pm10'', 40)]\<rparr>]\<rparr>"

text \<open>A file that has PM2.5 under both names, with different values.\<close>

definition both_names :: frame where
  "both_names =
     \<lparr>columns = [''created_at'', ''pm25'', ''pm10'', ''field3''],
      rows = [\<lparr>created_at = Time 0,
               cells = map_of [(''pm25'', 1), (''pm10'', 2), (''field3'', 7)]\<rparr>]\<rparr>"

text \<open>A file without any PM10 column.\<close>

definition only_pm25 :: frame where
  "only_pm25 =
     \<lparr>columns = [''created_at'', ''pm25'', ''temperature''],
      rows = [\<lparr>created_at = Time 0, cells = map_of [(''pm25'', 10), (''temperature'', 21)]\<rparr>]\<rparr>"


text \<open>A file whose time stamps are all empty.\<close>

definition blank_times :: frame where
  "blank_times =
     \<lparr>columns = [''created_at'', ''pm25'', ''pm10''],
      rows = [\<lparr>created_at = NaT, cells = map_of [(''pm25'', 10), (''pm10'', 20)]\<rparr>]\<rparr>"

text \<open>A chart renderer that always raises.\<close>

definition failing_render :: "string \<Rightarrow> frame \<Rightarrow> exn + (string option \<times> string)" where
  "failing_render kind df = Inl RenderError"

text \<open>
  Three daily readings under the semantic names; the third has no humidity value and a
  temperature that breaks the trend of the first two.
\<close>

definition gap_frame :: frame where
  "gap_frame =
     \<lparr>columns = [''created_at'', ''pm25'', ''pm10'', ''temperature'', ''humidity''],
      rows = [\<lparr>created_at = Time 0, cells = map_of
                [(''pm25'', 1), (''pm10'', 1), (''temperature'', 1), (''humidity'', 1)]\<rparr>,
              \<lparr>created_at = Time 86400, cells = map_of
                [(''pm25'', 2), (''pm10'', 2), (''temperature'', 2), (''humidity'', 2)]\<rparr>,
              \<lparr>created_at = Time 172800, cells = map_of
                [(''pm25'', 3), (''pm10'', 3), (''temperature'', 0)]\<rparr>]\<rparr>"

text \<open>Three readings with the same PM2.5 value.\<close>

definition flat_pm25 :: frame where
  "flat_pm25 =
     \<lparr>columns = [''created_at'', ''pm25'', ''pm10'', ''temperature'', ''humidity''],
      rows = [\<lparr>created_at = Time 0, cells = map_of
                [(''pm25'', 5), (''pm10'', 0), (''temperature'', 0), (''humidity'', 0)]\<rparr>,
              \<lparr>created_at = Time 3600, cells = map_of
                [(''pm25'', 5), (''pm10'', 1), (''temperature'', 1), (''humidity'', 1)]\<rparr>,
              \<lparr>created_at = Time 7200, cells = map_of
                [(''pm25'', 5), (''pm10'', 2), (''temperature'', 2), (''humidity'', 2)]\<rparr>]\<rparr>"




text \<open>Two readings under the legacy names only: \<open>field3\<close> is 5 and 15.\<close>

definition legacy_frame :: frame where
  "legacy_frame =
     \<lparr>columns = [''created_at'', ''field3'', ''field4''],
      rows = [\<lparr>created_at = Time 0, cells = map_of [(''field3'', 5), (''field4'', 8)]\<rparr>,
              \<lparr>created_at = Time 3600, cells = map_of [(''field3'', 15), (''field4'', 12)]\<rparr>]\<rparr>"

text \<open>Three daily readings with all four metrics.\<close>

definition full_frame :: frame where
  "full_frame =
     \<lparr>columns = [''created_at'', ''pm25'', ''pm10'', ''temperature'', ''humidity''],
      rows = [\<lparr>created_at = Time 0, cells = map_of
                [(''pm25'', 1), (''pm10'', 1), (''temperature'', 1), (''humidity'', 1)]\<rparr>,
              \<lparr>created_at = Time 86400, cells = map_of
                [(''pm25'', 2), (''pm10'', 2), (''temperature'', 2), (''humidity'', 2)]\<rparr>,
              \<lparr>created_at = Time 172800, cells = map_of
                [(''pm25'', 3), (''pm10'', 3), (''temperature'', 0), (''humidity'', 3)]\<rparr>]\<rparr>"



section \<open>Rounding to double precision\<close>


lemma rint_of_int [simp]: "rint (of_int k) = k"
  by (simp add: rint_def)





lemmas double_eval = double_def expo_def rint_def Let_def compute_bitlen float_round_def
  py_round_def

section \<open>Air quality levels\<close>

lemmas frame_ops = has_col_def to_datetime_coerce_def filter_rows_def
  sort_values_def map_fields_def FIELD_MAPPING_def assign_col_def assign_nan_def
  filter_start_def filter_end_def dropna_rows_def col_def len_def time_min_def time_max_def

lemma first_level_find:
  "first_level v ls = (case find (\<lambda>info. v \<le> max_value info) ls of
      Some info \<Rightarrow> (level info, color info)
    | None \<Rightarrow> (''Extremely Hazardous'', ''black''))"
  by (induction ls) simp_all

lemma sorted_tables:
  "map_of AQI_LEVELS p = Some tbl \<Longrightarrow> sorted (map max_value tbl)"
  by (auto simp add: AQI_LEVELS_def split: if_splits)

lemma statistics_air_quality:
  "calculate_statistics d = Inr (Statistics st) \<Longrightarrow>
     air_quality (pm25 st) = Some (get_air_quality_level (s_mean (pm25 st)) ''pm25'')
   \<and> air_quality (pm10 st) = Some (get_air_quality_level (s_mean (pm10 st)) ''pm10'')"
  by (auto simp add: calculate_statistics_def with_air_quality_def
      split: option.splits if_splits)

lemma pm25_table: "map_of AQI_LEVELS ''pm25'' = Some (levels_for ''pm25'')"
  by (simp add: AQI_LEVELS_def levels_for_def)

text \<open>
  Claim C5.  For a pollutant \<open>p\<close> with a threshold table (pm25 or pm10) the table is
  ascending, and the level of a mean value \<open>v\<close> that is not NaN is the label of the first
  entry of the table with \<open>v \<le> max\<close> (so a value equal to a threshold gets the lower
  bucket), or "Extremely Hazardous" when no entry has.  In the statistics the level of
  each pollutant is computed from the mean stored in its summary.
\<close>

theorem air_quality_level_first_threshold:
  assumes "map_of AQI_LEVELS p = Some tbl"
  shows "sorted (map max_value tbl)
     \<and> get_air_quality_level (Some v) p =
         (case find (\<lambda>info. v \<le> max_value info) tbl of
            Some info \<Rightarrow> (level info, color info)
          | None \<Rightarrow> (''Extremely Hazardous'', ''black''))
     \<and> (\<forall>d st. calculate_statistics d = Inr (Statistics st) \<longrightarrow>
           air_quality (pm25 st) = Some (get_air_quality_level (s_mean (pm25 st)) ''pm25'')
         \<and> air_quality (pm10 st) = Some (get_air_quality_level (s_mean (pm10 st)) ''pm10''))"
  using assms sorted_tables[OF assms] statistics_air_quality
  by (simp add: get_air_quality_level_def levels_for_def first_level_find)

theorem air_quality_level_witness:
  "map_of AQI_LEVELS ''pm25'' = Some (levels_for ''pm25'')
   \<and> get_air_quality_level (Some 12) ''pm25'' = (''Good'', ''green'')
   \<and> get_air_quality_level (Some (121 / 10)) ''pm25'' = (''Moderate'', ''yellow'')
   \<and> get_air_quality_level (Some 501) ''pm25'' = (''Extremely Hazardous'', ''black'')
   \<and> (\<exists>st. calculate_statistics (Some two_rows) = Inr (Statistics st)
         \<and> s_mean (pm25 st) = Some 20
         \<and> air_quality (pm25 st) = Some (''Moderate'', ''yellow''))"
proof -
  have eval: "\<exists>st. calculate_statistics (Some two_rows)
        = Inr (Statistics st) \<and> s_mean (pm25 st) = Some 20"
    by (simp add: two_rows_def frame_ops calculate_statistics_def
        with_air_quality_def summarize_def series_mean_def)
  then obtain st where st: "calculate_statistics (Some two_rows)
        = Inr (Statistics st)" "s_mean (pm25 st) = Some 20"
    by blast
  from air_quality_level_first_threshold[OF pm25_table, of 20] st
  have "air_quality (pm25 st) = Some (''Moderate'', ''yellow'')"
    by (simp add: levels_for_def AQI_LEVELS_def)
  with st have "\<exists>st. calculate_statistics (Some two_rows)
        = Inr (Statistics st) \<and> s_mean (pm25 st) = Some 20
        \<and> air_quality (pm25 st) = Some (''Moderate'', ''yellow'')"
    by blast
  moreover have "get_air_quality_level (Some 12) ''pm25'' = (''Good'', ''green'')"
    using air_quality_level_first_threshold[OF pm25_table, of 12]
    by (simp add: levels_for_def AQI_LEVELS_def)
  moreover have "get_air_quality_level (Some (121 / 10)) ''pm25'' = (''Moderate'', ''yellow'')"
    using air_quality_level_first_threshold[OF pm25_table, of "121 / 10"]
    by (simp add: levels_for_def AQI_LEVELS_def)
  moreover have "get_air_quality_level (Some 501) ''pm25'' = (''Extremely Hazardous'', ''black'')"
    using air_quality_level_first_threshold[OF pm25_table, of 501]
    by (simp add: levels_for_def AQI_LEVELS_def)
  ultimately show ?thesis
    using pm25_table by simp
qed

section \<open>Field resolution\<close>

lemma has_col_assign_col [simp]:
  "has_col (assign_col t s df) c \<longleftrightarrow> c = t \<or> has_col df c"
  by (auto simp add: has_col_def assign_col_def)

lemma has_col_assign_nan [simp]:
  "has_col (assign_nan t df) c \<longleftrightarrow> c = t \<or> has_col df c"
  by (auto simp add: has_col_def assign_nan_def)

lemma col_assign_col [simp]:
  "col (assign_col t s df) c = (if c = t then col df s else col df c)"
  by (simp add: col_def assign_col_def)

lemma col_assign_nan [simp]:
  "col (assign_nan t df) c = (if c = t then map (\<lambda>r. None) (rows df) else col df c)"
  by (simp add: col_def assign_nan_def)

lemma length_rows_assign_nan [simp]: "length (rows (assign_nan t df)) = length (rows df)"
  by (simp add: assign_nan_def)

lemma length_rows_assign_col [simp]: "length (rows (assign_col t s df)) = length (rows df)"
  by (simp add: assign_col_def)

lemma has_col_map_field [simp]:
  "has_col (map_field df (t, ps)) c \<longleftrightarrow> c = t \<or> has_col df c"
  by (simp split: option.split)

lemma length_rows_map_field [simp]:
  "length (rows (map_field df (t, ps))) = length (rows df)"
  by (simp split: option.split)

lemma col_map_field_other:
  "c \<noteq> t \<Longrightarrow> col (map_field df (t, ps)) c = col df c"
  by (simp split: option.split)

lemma col_map_field_same:
  "col (map_field df (t, [a, b])) t =
     (if has_col df a then col df a
      else if has_col df b then col df b else map (\<lambda>r. None) (rows df))"
  by simp

lemma map_fields_unfold:
  "map_fields df =
     map_field (map_field (map_field (map_field df (''pm25'', [''field3'', ''pm25'']))
       (''pm10'', [''field4'', ''pm10''])) (''temperature'', [''field2'', ''temperature'']))
       (''humidity'', [''field1'', ''humidity''])"
  unfolding map_fields_def FIELD_MAPPING_def foldl.simps ..

declare map_field.simps [simp del]

lemma map_fields_pm25:
  "col (map_fields df) ''pm25'' =
     (if has_col df ''field3'' then col df ''field3''
      else if has_col df ''pm25'' then col df ''pm25'' else map (\<lambda>r. None) (rows df))"
  by (simp add: map_fields_unfold col_map_field_other col_map_field_same)

lemma map_fields_pm10:
  "col (map_fields df) ''pm10'' =
     (if has_col df ''field4'' then col df ''field4''
      else if has_col df ''pm10'' then col df ''pm10'' else map (\<lambda>r. None) (rows df))"
  by (simp add: map_fields_unfold col_map_field_other col_map_field_same map_replicate_const)

lemma map_fields_temperature:
  "col (map_fields df) ''temperature'' =
     (if has_col df ''field2'' then col df ''field2''
      else if has_col df ''temperature'' then col df ''temperature''
      else map (\<lambda>r. None) (rows df))"
  by (simp add: map_fields_unfold col_map_field_other col_map_field_same map_replicate_const)

lemma map_fields_humidity:
  "col (map_fields df) ''humidity'' =
     (if has_col df ''field1'' then col df ''field1''
      else if has_col df ''humidity'' then col df ''humidity''
      else map (\<lambda>r. None) (rows df))"
  by (simp add: map_fields_unfold col_map_field_other col_map_field_same map_replicate_const)

text \<open>
  Claim C2, as the code has it.  In \<open>analyze_air_quality_data\<close> each of the four fields
  resolves to the semantic column when it is present, to the legacy code when only that is
  present, and is unavailable otherwise.  In \<open>load_data\<close> the order is the one of
  \<open>FIELD_MAPPING\<close>, legacy code first: the field takes the legacy column when it is
  present, the semantic column when only that is present, and is all NaN otherwise.
\<close>

theorem field_resolution:
  assumes "(sem, leg, resolve) \<in>
     {(''pm25'', ''field3'', pm25_col), (''pm10'', ''field4'', pm10_col),
      (''temperature'', ''field2'', temp_col), (''humidity'', ''field1'', humidity_col)}"
  shows "resolve df =
       (if has_col df sem then Some sem else if has_col df leg then Some leg else None)
     \<and> col (map_fields df) sem =
       (if has_col df leg then col df leg
        else if has_col df sem then col df sem else map (\<lambda>r. None) (rows df))"
proof -
  from assms have
    "(sem = ''pm25'' \<and> leg = ''field3'' \<and> resolve = pm25_col)
     \<or> (sem = ''pm10'' \<and> leg = ''field4'' \<and> resolve = pm10_col)
     \<or> (sem = ''temperature'' \<and> leg = ''field2'' \<and> resolve = temp_col)
     \<or> (sem = ''humidity'' \<and> leg = ''field1'' \<and> resolve = humidity_col)"
    by (simp only: insert_iff empty_iff prod.inject simp_thms)
  then show ?thesis
  proof (elim disjE conjE)
    assume "sem = ''pm25''" "leg = ''field3''" "resolve = pm25_col"
    then show ?thesis by (simp only: map_fields_pm25 pm25_col_def simp_thms)
  next
    assume "sem = ''pm10''" "leg = ''field4''" "resolve = pm10_col"
    then show ?thesis by (simp only: map_fields_pm10 pm10_col_def simp_thms)
  next
    assume "sem = ''temperature''" "leg = ''field2''" "resolve = temp_col"
    then show ?thesis by (simp only: map_fields_temperature temp_col_def simp_thms)
  next
    assume "sem = ''humidity''" "leg = ''field1''" "resolve = humidity_col"
    then show ?thesis by (simp only: map_fields_humidity humidity_col_def simp_thms)
  qed
qed

theorem field_resolution_witness:
  "pm25_col both_names = Some ''pm25''
   \<and> col (map_fields both_names) ''pm25'' = col both_names ''field3''
   \<and> pm10_col both_names = Some ''pm10''
   \<and> col (map_fields both_names) ''pm10'' = col both_names ''pm10''"
  using field_resolution[of "''pm25''" "''field3''" pm25_col both_names]
    field_resolution[of "''pm10''" "''field4''" pm10_col both_names]
  by (simp add: both_names_def has_col_def)

text \<open>
  Claim C2 as stated fails in \<open>load_data\<close>: with both \<open>pm25\<close> and \<open>field3\<close> in the
  file, the PM2.5 field takes the values of \<open>field3\<close>.
\<close>

theorem load_data_prefers_legacy_column:
  "has_col both_names ''pm25'' \<and> col both_names ''pm25'' = [Some 1]
   \<and> col (map_fields both_names) ''pm25'' = [Some 7]"
  unfolding map_fields_pm25 by (simp add: both_names_def has_col_def col_def)

section \<open>Reaching the statistics in analysis.py\<close>

lemma columns_filter_rows [simp]: "columns (filter_rows P df) = columns df"
  by (simp add: filter_rows_def)

lemma columns_to_datetime_coerce [simp]: "columns (to_datetime_coerce df) = columns df"
  by (simp add: to_datetime_coerce_def)

lemma columns_filter_start: "filter_start d df = Inr df' \<Longrightarrow> columns df' = columns df"
  by (cases d) (auto simp add: filter_start_def)

lemma columns_filter_end: "filter_end d df = Inr df' \<Longrightarrow> columns df' = columns df"
  by (cases d) (auto simp add: filter_end_def)

lemma resolve_cong:
  assumes "columns df' = columns df"
  shows "pm25_col df' = pm25_col df" "pm10_col df' = pm10_col df"
    "temp_col df' = temp_col df" "humidity_col df' = humidity_col df"
  using assms
  by (simp_all only: pm25_col_def pm10_col_def temp_col_def humidity_col_def has_col_def)

lemma error_statistics [simp]:
  "error (pm25_statistics df c r) = error r"
  "error (pm10_statistics df c r) = error r"
  "error (temperature_statistics df c r) = error r"
  "error (humidity_statistics df c r) = error r"
  by (simp_all add: pm25_statistics_def pm10_statistics_def temperature_statistics_def
      humidity_statistics_def split: list.split)

lemma error_extended_analysis [simp]:
  "error (extended_analysis df a b c d r) = error r"
  by (simp add: extended_analysis_def Let_def split: sum.split)

lemma average_temperature_kept [simp]:
  "average_temperature (pm25_statistics df c r) = average_temperature r"
  "average_temperature (pm10_statistics df c r) = average_temperature r"
  "average_temperature (humidity_statistics df c r) = average_temperature r"
  "average_temperature (extended_analysis df a b x y r) = average_temperature r"
  by (simp_all add: pm25_statistics_def pm10_statistics_def
      humidity_statistics_def extended_analysis_def Let_def split: list.split sum.split)

lemma average_humidity_kept [simp]:
  "average_humidity (pm25_statistics df c r) = average_humidity r"
  "average_humidity (pm10_statistics df c r) = average_humidity r"
  "average_humidity (temperature_statistics df c r) = average_humidity r"
  "average_humidity (extended_analysis df a b x y r) = average_humidity r"
  by (simp_all add: pm25_statistics_def pm10_statistics_def
      temperature_statistics_def extended_analysis_def Let_def split: list.split sum.split)

lemma time_max_None: "time_max df = None \<longleftrightarrow> time_min df = None"
  by (simp add: time_max_def time_min_def split: list.split)

lemma analyze_reached:
  assumes "len df0 \<noteq> 0" "has_col df0 ''created_at''"
    "filter_start start_date (to_datetime_coerce df0) = Inr df1"
    "filter_end end_date df1 = Inr df" "len df \<noteq> 0"
  shows "analyze_air_quality_data csv_path (Csv df0) start_date end_date extended =
     (case pm25_col df of
        None \<Rightarrow> initial_result\<lparr>error := Some MissingRequiredColumns\<rparr>
      | Some pm25c \<Rightarrow>
         (case pm10_col df of
            None \<Rightarrow> initial_result\<lparr>error := Some MissingRequiredColumns\<rparr>
          | Some pm10c \<Rightarrow>
              analyze_resolved df pm25c pm10c (temp_col df) (humidity_col df) extended))"
  using assms by (simp add: analyze_air_quality_data_def)

lemma columns_reached:
  assumes "filter_start start_date (to_datetime_coerce df0) = Inr df1"
    "filter_end end_date df1 = Inr df"
  shows "columns df = columns df0"
  using columns_filter_start[OF assms(1)] columns_filter_end[OF assms(2)] by simp

lemma error_basic_statistics [simp]: "error (basic_statistics df a b c d) = None"
  by (simp add: basic_statistics_def Let_def initial_result_def split: option.split)

lemma error_analyze_resolved:
  "error (analyze_resolved df a b c d ext) =
     (if time_min df = None then Some (ErrorAnalyzingData ValueError) else None)"
  by (simp add: analyze_resolved_def Let_def time_max_None split: option.split)

lemma average_temperature_resolved:
  "average_temperature (analyze_resolved df a b None d ext) = 0"
  by (simp add: analyze_resolved_def basic_statistics_def Let_def initial_result_def
      split: option.split)

lemma average_humidity_resolved:
  "average_humidity (analyze_resolved df a b c None ext) = 0"
  by (simp add: analyze_resolved_def basic_statistics_def Let_def initial_result_def
      split: option.split)

lemma optional_summary_None:
  "optional_summary d c = None \<longleftrightarrow> \<not> has_col d c \<or> dropna (col d c) = []"
  by (simp add: optional_summary_def)

lemma statistics_optional:
  "calculate_statistics (Some d) = Inr (Statistics st) \<Longrightarrow>
     temperature st = optional_summary d ''temperature''
     \<and> humidity st = optional_summary d ''humidity''"
  by (auto simp add: calculate_statistics_def split: option.splits if_splits)

lemma statistics_defined:
  assumes "len d \<noteq> 0" "has_col d ''created_at''" "time_min d \<noteq> None"
    "has_col d ''pm25''" "has_col d ''pm10''"
  shows "\<exists>st. calculate_statistics (Some d) = Inr (Statistics st)"
  using assms by (auto simp add: calculate_statistics_def time_max_None split: option.splits)

lemma two_rows_reached:
  "len two_rows \<noteq> 0" "has_col two_rows ''created_at''"
  "filter_start NoDate (to_datetime_coerce two_rows) = Inr (to_datetime_coerce two_rows)"
  "filter_end NoDate (to_datetime_coerce two_rows) = Inr (to_datetime_coerce two_rows)"
  "len (to_datetime_coerce two_rows) \<noteq> 0"
  by (simp_all add: two_rows_def len_def has_col_def filter_start_def filter_end_def
      to_datetime_coerce_def)

lemma two_rows_columns:
  "pm25_col two_rows = Some ''pm25''" "pm10_col two_rows = Some ''pm10''"
  "temp_col two_rows = None" "humidity_col two_rows = None"
  by (simp_all add: two_rows_def pm25_col_def pm10_col_def temp_col_def humidity_col_def
      has_col_def)

lemma two_rows_time_min: "time_min (to_datetime_coerce two_rows) = Some 0"
  by (simp add: two_rows_def time_min_def to_datetime_coerce_def)

lemma only_pm25_reached:
  "len only_pm25 \<noteq> 0" "has_col only_pm25 ''created_at''"
  "filter_start NoDate (to_datetime_coerce only_pm25) = Inr (to_datetime_coerce only_pm25)"
  "filter_end NoDate (to_datetime_coerce only_pm25) = Inr (to_datetime_coerce only_pm25)"
  "len (to_datetime_coerce only_pm25) \<noteq> 0"
  by (simp_all add: only_pm25_def len_def has_col_def filter_start_def filter_end_def
      to_datetime_coerce_def)

lemma only_pm25_columns:
  "pm25_col only_pm25 = Some ''pm25''" "pm10_col only_pm25 = None"
  "pm25_col (to_datetime_coerce only_pm25) = Some ''pm25''"
  "pm10_col (to_datetime_coerce only_pm25) = None"
  by (simp_all add: only_pm25_def pm25_col_def pm10_col_def has_col_def to_datetime_coerce_def)

text \<open>
  Claim C3, as the code has it.  For a file with rows and a \<open>created_at\<close> column, and
  rows left after the date filters, \<open>analyze_air_quality_data\<close> reports the missing columns
  error exactly when the PM2.5 field or the PM10 field is unavailable (one of them is
  enough).  When both are available and some time stamp is valid there is no error, whatever
  columns exist for temperature and humidity; a field of these two that is unavailable leaves
  its average at the default 0.  In \<open>calculate_statistics\<close> the temperature (humidity)
  summary is left out exactly when the column is absent or has no valid value.
\<close>

theorem missing_required_columns:
  assumes "len df0 \<noteq> 0" and "has_col df0 ''created_at''"
    and "filter_start start_date (to_datetime_coerce df0) = Inr df1"
    and "filter_end end_date df1 = Inr df" and "len df \<noteq> 0"
  shows "(error (analyze_air_quality_data csv_path (Csv df0) start_date end_date extended)
            = Some MissingRequiredColumns
          \<longleftrightarrow> pm25_col df0 = None \<or> pm10_col df0 = None)
     \<and> (pm25_col df0 \<noteq> None \<and> pm10_col df0 \<noteq> None \<and> time_min df \<noteq> None \<longrightarrow>
          error (analyze_air_quality_data csv_path (Csv df0) start_date end_date extended) = None
          \<and> (temp_col df0 = None \<longrightarrow>
               average_temperature
                 (analyze_air_quality_data csv_path (Csv df0) start_date end_date extended) = 0)
          \<and> (humidity_col df0 = None \<longrightarrow>
               average_humidity
                 (analyze_air_quality_data csv_path (Csv df0) start_date end_date extended) = 0))
     \<and> (\<forall>d st. calculate_statistics (Some d) = Inr (Statistics st) \<longrightarrow>
          (temperature st = None \<longleftrightarrow> \<not> has_col d ''temperature'' \<or> dropna (col d ''temperature'') = [])
          \<and> (humidity st = None \<longleftrightarrow> \<not> has_col d ''humidity'' \<or> dropna (col d ''humidity'') = []))"
proof -
  note cols = columns_reached[OF assms(3,4)]
  note res = resolve_cong[OF cols]
  note run = analyze_reached[OF assms, of csv_path extended]
  have a: "error (analyze_air_quality_data csv_path (Csv df0) start_date end_date extended)
            = Some MissingRequiredColumns
          \<longleftrightarrow> pm25_col df0 = None \<or> pm10_col df0 = None"
    unfolding run res
    by (simp add: error_analyze_resolved initial_result_def split: option.split)
  have b: "pm25_col df0 \<noteq> None \<and> pm10_col df0 \<noteq> None \<and> time_min df \<noteq> None \<longrightarrow>
          error (analyze_air_quality_data csv_path (Csv df0) start_date end_date extended) = None
          \<and> (temp_col df0 = None \<longrightarrow>
               average_temperature
                 (analyze_air_quality_data csv_path (Csv df0) start_date end_date extended) = 0)
          \<and> (humidity_col df0 = None \<longrightarrow>
               average_humidity
                 (analyze_air_quality_data csv_path (Csv df0) start_date end_date extended) = 0)"
    unfolding run res
    by (auto simp add: error_analyze_resolved average_temperature_resolved
        average_humidity_resolved)
  have c: "\<forall>d st. calculate_statistics (Some d) = Inr (Statistics st) \<longrightarrow>
          (temperature st = None \<longleftrightarrow> \<not> has_col d ''temperature'' \<or> dropna (col d ''temperature'') = [])
          \<and> (humidity st = None \<longleftrightarrow> \<not> has_col d ''humidity'' \<or> dropna (col d ''humidity'') = [])"
    using statistics_optional optional_summary_None by simp
  from a b c show ?thesis by (intro conjI)
qed

theorem missing_required_columns_witness:
  "len two_rows \<noteq> 0 \<and> has_col two_rows ''created_at''
   \<and> filter_start NoDate (to_datetime_coerce two_rows) = Inr (to_datetime_coerce two_rows)
   \<and> filter_end NoDate (to_datetime_coerce two_rows) = Inr (to_datetime_coerce two_rows)
   \<and> len (to_datetime_coerce two_rows) \<noteq> 0
   \<and> temp_col two_rows = None \<and> humidity_col two_rows = None
   \<and> error (analyze_air_quality_data ''data.csv'' (Csv two_rows) NoDate NoDate True) = None
   \<and> average_temperature
        (analyze_air_quality_data ''data.csv'' (Csv two_rows) NoDate NoDate True) = 0
   \<and> average_humidity
        (analyze_air_quality_data ''data.csv'' (Csv two_rows) NoDate NoDate True) = 0
   \<and> (\<exists>st. calculate_statistics (Some two_rows) = Inr (Statistics st)
         \<and> temperature st = None \<and> humidity st = None)"
proof -
  have st: "\<exists>st. calculate_statistics (Some two_rows) = Inr (Statistics st)"
    by (rule statistics_defined)
      (simp_all add: two_rows_def len_def has_col_def time_min_def)
  then obtain st where st: "calculate_statistics (Some two_rows) = Inr (Statistics st)" ..
  have nocol: "\<not> has_col two_rows ''temperature''" "\<not> has_col two_rows ''humidity''"
    by (simp_all add: two_rows_def has_col_def)
  note inst = missing_required_columns[OF two_rows_reached,
      of "''data.csv''" True]
  from inst st nocol have "temperature st = None \<and> humidity st = None"
    by blast
  with st have "\<exists>st. calculate_statistics (Some two_rows) = Inr (Statistics st)
         \<and> temperature st = None \<and> humidity st = None"
    by blast
  moreover from inst two_rows_columns two_rows_time_min
  have "error (analyze_air_quality_data ''data.csv'' (Csv two_rows) NoDate NoDate True) = None
   \<and> average_temperature
        (analyze_air_quality_data ''data.csv'' (Csv two_rows) NoDate NoDate True) = 0
   \<and> average_humidity
        (analyze_air_quality_data ''data.csv'' (Csv two_rows) NoDate NoDate True) = 0"
    by (simp only: option.distinct simp_thms not_False_eq_True)
  ultimately show ?thesis
    using two_rows_reached two_rows_columns by blast
qed

text \<open>
  Claim C3 as stated fails: a file with a PM2.5 column and no PM10 column gets the missing
  columns error although PM2.5 is available.
\<close>

theorem missing_pm10_alone_is_fatal:
  "pm25_col only_pm25 = Some ''pm25''
   \<and> error (analyze_air_quality_data ''data.csv'' (Csv only_pm25) NoDate NoDate False)
       = Some MissingRequiredColumns"
  unfolding analyze_reached[OF only_pm25_reached] only_pm25_columns
  by (simp add: initial_result_def)

section \<open>Statistics over the valid values\<close>

lemma extended_analysis_kept [simp]:
  "average_pm25 (extended_analysis df a b x y r) = average_pm25 r"
  "max_pm25 (extended_analysis df a b x y r) = max_pm25 r"
  "min_pm25 (extended_analysis df a b x y r) = min_pm25 r"
  "average_pm10 (extended_analysis df a b x y r) = average_pm10 r"
  "max_pm10 (extended_analysis df a b x y r) = max_pm10 r"
  "min_pm10 (extended_analysis df a b x y r) = min_pm10 r"
  "record_count (extended_analysis df a b x y r) = record_count r"
  "warnings (extended_analysis df a b x y r) = warnings r"
  by (simp_all add: extended_analysis_def Let_def split: sum.split)

lemma analyze_resolved_fields:
  "average_pm25 (analyze_resolved df a b c d ext) = average_pm25 (basic_statistics df a b c d)"
  "max_pm25 (analyze_resolved df a b c d ext) = max_pm25 (basic_statistics df a b c d)"
  "min_pm25 (analyze_resolved df a b c d ext) = min_pm25 (basic_statistics df a b c d)"
  "average_pm10 (analyze_resolved df a b c d ext) = average_pm10 (basic_statistics df a b c d)"
  "max_pm10 (analyze_resolved df a b c d ext) = max_pm10 (basic_statistics df a b c d)"
  "min_pm10 (analyze_resolved df a b c d ext) = min_pm10 (basic_statistics df a b c d)"
  "average_temperature (analyze_resolved df a b c d ext)
     = average_temperature (basic_statistics df a b c d)"
  "average_humidity (analyze_resolved df a b c d ext)
     = average_humidity (basic_statistics df a b c d)"
  "warnings (analyze_resolved df a b c d ext) = warnings (basic_statistics df a b c d)"
  "record_count (analyze_resolved df a b c d ext) = len df"
  by (simp_all add: analyze_resolved_def Let_def split: option.split)

lemma warnings_distinct:
  "no_valid_pm25 \<noteq> no_valid_pm10" "no_valid_pm25 \<noteq> no_valid_temperature"
  "no_valid_pm25 \<noteq> no_valid_humidity" "no_valid_pm10 \<noteq> no_valid_temperature"
  "no_valid_pm10 \<noteq> no_valid_humidity" "no_valid_temperature \<noteq> no_valid_humidity"
  "no_valid_pm10 \<noteq> no_valid_pm25" "no_valid_temperature \<noteq> no_valid_pm25"
  "no_valid_humidity \<noteq> no_valid_pm25" "no_valid_temperature \<noteq> no_valid_pm10"
  "no_valid_humidity \<noteq> no_valid_pm10" "no_valid_humidity \<noteq> no_valid_temperature"
  by (simp_all add: no_valid_pm25_def no_valid_pm10_def no_valid_temperature_def
      no_valid_humidity_def)



lemmas statistics_defs = basic_statistics_def Let_def pm25_statistics_def pm10_statistics_def
  temperature_statistics_def humidity_statistics_def initial_result_def


lemma basic_pm25_valid:
  assumes "dropna (col df a) = x # xs"
  shows "average_pm25 (basic_statistics df a b c d) = list_mean (x # xs)"
    "max_pm25 (basic_statistics df a b c d) = fold max xs x"
    "min_pm25 (basic_statistics df a b c d) = fold min xs x"
    "no_valid_pm25 \<notin> set (warnings (basic_statistics df a b c d))"
  using assms
  by (simp_all add: statistics_defs warnings_distinct split: option.split list.split)











lemma statistics_pollutants:
  "calculate_statistics (Some d) = Inr (Statistics st) \<Longrightarrow>
     s_mean (pm25 st) = series_mean (col d ''pm25'') \<and> s_min (pm25 st) = series_min (col d ''pm25'')
   \<and> s_max (pm25 st) = series_max (col d ''pm25'')
   \<and> s_mean (pm10 st) = series_mean (col d ''pm10'') \<and> s_min (pm10 st) = series_min (col d ''pm10'')
   \<and> s_max (pm10 st) = series_max (col d ''pm10'')"
  by (auto simp add: calculate_statistics_def with_air_quality_def summarize_def
      split: option.splits if_splits)















section \<open>Errors at the entry points\<close>

text \<open>
  Every \<open>raise\<close> of the source is an \<open>Inl\<close> value of the function that raises; the two
  entry points catch all of them, which is why their result type is the result record itself.
\<close>

lemma filter_start_Inl: "filter_start d df = Inl e \<Longrightarrow> e = ParserError"
  by (cases d) (auto simp add: filter_start_def)

lemma filter_end_Inl: "filter_end d df = Inl e \<Longrightarrow> e = ParserError"
  by (cases d) (auto simp add: filter_end_def)

lemma pre_error:
  assumes "e \<noteq> ErrorAnalyzingData ValueError" and "r = initial_result\<lparr>error := Some e\<rparr>"
  shows "(\<exists>e. r = initial_result\<lparr>error := Some e\<rparr> \<and> e \<noteq> ErrorAnalyzingData ValueError)
     \<or> (\<exists>df a b c d. len df \<noteq> 0 \<and> r = analyze_resolved df a b c d extended)"
  using assms by blast

lemma analyze_cases:
  "(\<exists>e. analyze_air_quality_data csv_path f start_date end_date extended
         = initial_result\<lparr>error := Some e\<rparr> \<and> e \<noteq> ErrorAnalyzingData ValueError)
   \<or> (\<exists>df a b c d. len df \<noteq> 0
        \<and> analyze_air_quality_data csv_path f start_date end_date extended
           = analyze_resolved df a b c d extended)"
proof (cases f)
  case NoFile
  show ?thesis
    by (rule pre_error[of "FileNotFound csv_path"])
      (simp_all add: NoFile analyze_air_quality_data_def)
next
  case EmptyFile
  show ?thesis
    by (rule pre_error[of "ErrorAnalyzingData EmptyDataError"])
      (simp_all add: EmptyFile analyze_air_quality_data_def)
next
  case (Csv df0)
  show ?thesis
  proof (cases "len df0 = 0")
    case True
    show ?thesis
      by (rule pre_error[of NoDataInFile])
        (simp_all add: Csv True analyze_air_quality_data_def)
  next
    case n0: False
    show ?thesis
    proof (cases "has_col df0 ''created_at''")
      case False
      show ?thesis
        by (rule pre_error[of "ErrorAnalyzingData (KeyError ''created_at'')"])
          (simp_all add: Csv n0 False analyze_air_quality_data_def)
    next
      case True
      show ?thesis
      proof (cases "filter_start start_date (to_datetime_coerce df0)")
        case (Inl e)
        show ?thesis
          by (rule pre_error[of "ErrorAnalyzingData ParserError"])
            (simp_all add: Csv n0 True Inl filter_start_Inl[OF Inl]
              analyze_air_quality_data_def)
      next
        case (Inr df1)
        show ?thesis
        proof (cases "filter_end end_date df1")
          case (Inl e)
          show ?thesis
            by (rule pre_error[of "ErrorAnalyzingData ParserError"])
              (simp_all add: Csv n0 True Inr Inl filter_end_Inl[OF Inl]
                analyze_air_quality_data_def)
        next
          case r: (Inr df)
          show ?thesis
          proof (cases "len df = 0")
            case z: True
            show ?thesis
              by (rule pre_error[of NoDataInRange])
                (simp_all add: Csv n0 True Inr r z analyze_air_quality_data_def)
          next
            case n: False
            note run = analyze_reached[OF n0 True Inr r n, of csv_path extended]
            show ?thesis
            proof (cases "pm25_col df")
              case None
              show ?thesis
                by (rule pre_error[of MissingRequiredColumns])
                  (simp_all add: Csv run None)
            next
              case a: (Some a)
              show ?thesis
              proof (cases "pm10_col df")
                case None
                show ?thesis
                  by (rule pre_error[of MissingRequiredColumns])
                    (simp_all add: Csv run a None)
              next
                case (Some b)
                have "analyze_air_quality_data csv_path f start_date end_date extended
                   = analyze_resolved df a b (temp_col df) (humidity_col df) extended"
                  by (simp add: Csv run a Some)
                with n show ?thesis by blast
              qed
            qed
          qed
        qed
      qed
    qed
  qed
qed

lemma analyze_error_shape:
  assumes "r = analyze_air_quality_data csv_path f start_date end_date extended"
    and "error r \<noteq> None"
  shows "if error r = Some (ErrorAnalyzingData ValueError) then record_count r \<noteq> 0
         else r = initial_result\<lparr>error := error r\<rparr>"
proof -
  from analyze_cases[of csv_path f start_date end_date extended]
  consider e where "r = initial_result\<lparr>error := Some e\<rparr>" "e \<noteq> ErrorAnalyzingData ValueError"
    | df a b c d where "len df \<noteq> 0" "r = analyze_resolved df a b c d extended"
    unfolding assms(1) by blast
  then show ?thesis
  proof cases
    case 1
    then show ?thesis by simp
  next
    case 2
    with assms(2) show ?thesis
      by (simp add: error_analyze_resolved analyze_resolved_fields split: if_splits)
  qed
qed

lemma analyze_data_no_data:
  assumes "load_data f start_date end_date = None
     \<or> (\<exists>d. load_data f start_date end_date = Some d \<and> len d = 0)"
  shows "analyze_data render f vt start_date end_date =
     \<lparr>success = False, statistics = None, viz_type = vt, viz_path = None,
      viz_description = None, analyze_error = Some NoDataForAnalysis\<rparr>"
  using assms by (auto simp add: analyze_data_def)

lemma analyze_data_error:
  assumes "analyze_error (analyze_data render f vt start_date end_date) \<noteq> None"
  shows "\<not> success (analyze_data render f vt start_date end_date)
     \<and> viz_path (analyze_data render f vt start_date end_date) = None
     \<and> viz_description (analyze_data render f vt start_date end_date) = None"
  using assms
  by (auto simp add: analyze_data_def Let_def split: option.splits sum.splits if_splits)

lemma load_data_no_file:
  "load_data NoFile start_date end_date = None" "load_data EmptyFile start_date end_date = None"
  by (simp_all add: load_data_def)

lemma blank_times_reached:
  "len blank_times \<noteq> 0" "has_col blank_times ''created_at''"
  "filter_start NoDate (to_datetime_coerce blank_times) = Inr (to_datetime_coerce blank_times)"
  "filter_end NoDate (to_datetime_coerce blank_times) = Inr (to_datetime_coerce blank_times)"
  "len (to_datetime_coerce blank_times) \<noteq> 0"
  by (simp_all add: blank_times_def len_def has_col_def filter_start_def filter_end_def
      to_datetime_coerce_def)

lemma blank_times_columns:
  "pm25_col (to_datetime_coerce blank_times) = Some ''pm25''"
  "pm10_col (to_datetime_coerce blank_times) = Some ''pm10''"
  by (simp_all add: blank_times_def pm25_col_def pm10_col_def has_col_def to_datetime_coerce_def)

lemma blank_times_facts:
  "time_min (to_datetime_coerce blank_times) = None"
  "len (to_datetime_coerce blank_times) = 1"
  "dropna (col (to_datetime_coerce blank_times) ''pm25'') = [10]"
  by (simp_all add: blank_times_def time_min_def len_def col_def to_datetime_coerce_def)

text \<open>
  The error returns of the two entry points.  Both return a result record for every input.
  In \<open>analyze_air_quality_data\<close> a missing file, an unreadable (empty) file, a file without
  rows and a date range that leaves no row give the initial record (all numbers 0, record
  count 0) with the error message added, and so does every exception raised before the
  statistics are stored.  The one error that is reported with other numbers is the exception
  raised while the date range is formatted.  In \<open>analyze_data\<close> a missing or unreadable file
  and a load that leaves no row give the default record with the error message (there is no
  record count; \<open>statistics\<close> is \<open>None\<close>); whenever an error is reported, \<open>success\<close> is
  false and there is no chart.
\<close>

theorem entry_points_report_errors:
  assumes "r = analyze_air_quality_data csv_path f start_date end_date extended"
    and "a = analyze_data render f vt start_date end_date"
  shows "(f = NoFile \<longrightarrow> r = initial_result\<lparr>error := Some (FileNotFound csv_path)\<rparr>)
     \<and> (f = EmptyFile \<longrightarrow> r = initial_result\<lparr>error := Some (ErrorAnalyzingData EmptyDataError)\<rparr>)
     \<and> (\<forall>df0. f = Csv df0 \<and> len df0 = 0 \<longrightarrow> r = initial_result\<lparr>error := Some NoDataInFile\<rparr>)
     \<and> (\<forall>df0 df1 df. f = Csv df0 \<and> len df0 \<noteq> 0 \<and> has_col df0 ''created_at''
            \<and> filter_start start_date (to_datetime_coerce df0) = Inr df1
            \<and> filter_end end_date df1 = Inr df \<and> len df = 0
          \<longrightarrow> r = initial_result\<lparr>error := Some NoDataInRange\<rparr>)
     \<and> (error r \<noteq> None \<longrightarrow>
           (if error r = Some (ErrorAnalyzingData ValueError) then record_count r \<noteq> 0
            else r = initial_result\<lparr>error := error r\<rparr>))
     \<and> (f = NoFile \<or> f = EmptyFile
           \<or> (\<exists>d. load_data f start_date end_date = Some d \<and> len d = 0) \<longrightarrow>
          a = \<lparr>success = False, statistics = None, viz_type = vt, viz_path = None,
               viz_description = None, analyze_error = Some NoDataForAnalysis\<rparr>)
     \<and> (analyze_error a \<noteq> None \<longrightarrow>
          \<not> success a \<and> viz_path a = None \<and> viz_description a = None)"
proof -
  have 1: "f = NoFile \<longrightarrow> r = initial_result\<lparr>error := Some (FileNotFound csv_path)\<rparr>"
    unfolding assms(1) by (simp add: analyze_air_quality_data_def)
  have 2: "f = EmptyFile \<longrightarrow> r = initial_result\<lparr>error := Some (ErrorAnalyzingData EmptyDataError)\<rparr>"
    unfolding assms(1) by (simp add: analyze_air_quality_data_def)
  have 3: "\<forall>df0. f = Csv df0 \<and> len df0 = 0 \<longrightarrow> r = initial_result\<lparr>error := Some NoDataInFile\<rparr>"
    unfolding assms(1) by (simp add: analyze_air_quality_data_def)
  have 4: "\<forall>df0 df1 df. f = Csv df0 \<and> len df0 \<noteq> 0 \<and> has_col df0 ''created_at''
            \<and> filter_start start_date (to_datetime_coerce df0) = Inr df1
            \<and> filter_end end_date df1 = Inr df \<and> len df = 0
          \<longrightarrow> r = initial_result\<lparr>error := Some NoDataInRange\<rparr>"
    unfolding assms(1) by (simp add: analyze_air_quality_data_def)
  have 5: "error r \<noteq> None \<longrightarrow>
           (if error r = Some (ErrorAnalyzingData ValueError) then record_count r \<noteq> 0
            else r = initial_result\<lparr>error := error r\<rparr>)"
    using analyze_error_shape[OF assms(1)] by blast
  have 6: "f = NoFile \<or> f = EmptyFile
           \<or> (\<exists>d. load_data f start_date end_date = Some d \<and> len d = 0) \<longrightarrow>
          a = \<lparr>success = False, statistics = None, viz_type = vt, viz_path = None,
               viz_description = None, analyze_error = Some NoDataForAnalysis\<rparr>"
    unfolding assms(2) using analyze_data_no_data load_data_no_file by blast
  have 7: "analyze_error a \<noteq> None \<longrightarrow>
          \<not> success a \<and> viz_path a = None \<and> viz_description a = None"
    unfolding assms(2) using analyze_data_error by blast
  from 1 2 3 4 5 6 7 show ?thesis by (intro conjI)
qed

theorem entry_points_report_errors_witness:
  "analyze_air_quality_data ''data.csv'' NoFile NoDate NoDate False
     = initial_result\<lparr>error := Some (FileNotFound ''data.csv'')\<rparr>
   \<and> record_count (analyze_air_quality_data ''data.csv'' NoFile NoDate NoDate False) = 0
   \<and> analyze_air_quality_data ''data.csv'' (Csv two_rows) (Date 7200) NoDate False
     = initial_result\<lparr>error := Some NoDataInRange\<rparr>
   \<and> analyze_data failing_render NoFile ''heatmap'' NoDate NoDate
     = \<lparr>success = False, statistics = None, viz_type = ''heatmap'', viz_path = None,
        viz_description = None, analyze_error = Some NoDataForAnalysis\<rparr>"
proof -
  note a = entry_points_report_errors[OF refl refl,
      where csv_path = "''data.csv''" and f = NoFile and start_date = NoDate
        and end_date = NoDate and extended = False and render = failing_render
        and vt = "''heatmap''"]
  note b = entry_points_report_errors[OF refl refl,
      where csv_path = "''data.csv''" and f = "Csv two_rows" and start_date = "Date 7200"
        and end_date = NoDate and extended = False and render = failing_render
        and vt = "''heatmap''"]
  have reach: "len two_rows \<noteq> 0" "has_col two_rows ''created_at''"
    "filter_start (Date 7200) (to_datetime_coerce two_rows)
       = Inr (filter_rows (\<lambda>r. time_ge (created_at r) 7200) (to_datetime_coerce two_rows))"
    "filter_end NoDate (filter_rows (\<lambda>r. time_ge (created_at r) 7200) (to_datetime_coerce two_rows))
       = Inr (filter_rows (\<lambda>r. time_ge (created_at r) 7200) (to_datetime_coerce two_rows))"
    "len (filter_rows (\<lambda>r. time_ge (created_at r) 7200) (to_datetime_coerce two_rows)) = 0"
    by (simp_all add: two_rows_def len_def has_col_def filter_start_def filter_end_def
        to_datetime_coerce_def filter_rows_def)
  from a have 1: "analyze_air_quality_data ''data.csv'' NoFile NoDate NoDate False
     = initial_result\<lparr>error := Some (FileNotFound ''data.csv'')\<rparr>"
    by blast
  from a have 3: "analyze_data failing_render NoFile ''heatmap'' NoDate NoDate
     = \<lparr>success = False, statistics = None, viz_type = ''heatmap'', viz_path = None,
        viz_description = None, analyze_error = Some NoDataForAnalysis\<rparr>"
    by blast
  from b reach have 2: "analyze_air_quality_data ''data.csv'' (Csv two_rows) (Date 7200) NoDate False
     = initial_result\<lparr>error := Some NoDataInRange\<rparr>"
    by blast
  have 4: "record_count (analyze_air_quality_data ''data.csv'' NoFile NoDate NoDate False) = 0"
    unfolding 1 by (simp add: initial_result_def)
  from 1 2 3 4 show ?thesis by (intro conjI)
qed

lemma load_data_Csv:
  "load_data (Csv df) s e =
     (if \<not> has_col df ''created_at'' then None
      else (case filter_start s (map_fields (sort_values
                (filter_rows (\<lambda>r. created_at r \<noteq> NaT) (to_datetime_coerce df)))) of
          Inl x \<Rightarrow> None
        | Inr df5 \<Rightarrow> (case filter_end e df5 of
             Inl x \<Rightarrow> None
           | Inr df6 \<Rightarrow> Some (dropna_rows [''pm25'', ''pm10''] df6))))"
  by (simp add: load_data_def Let_def)

lemma blank_times_loaded:
  "\<exists>d. load_data (Csv blank_times) NoDate NoDate = Some d \<and> len d = 0"
  unfolding load_data_Csv
  by (simp add: blank_times_def has_col_def to_datetime_coerce_def filter_rows_def sort_values_def
      filter_start_def filter_end_def dropna_rows_def len_def map_fields_unfold map_field.simps
      assign_col_def assign_nan_def)

text \<open>
  Claim C7 fails on a file whose time stamps are all empty.  The guard \<open>if len(df) > 0\<close>
  before the date range (lines 156-158) lets the frame through, \<open>min()\<close> of the column is NaT
  and \<open>NaT.strftime\<close> raises after the statistics were stored: the outer handler returns the
  error together with record count 1 and the computed average, not the zeroed record that
  every explicit error return gives.  The sibling entry point \<open>analyze_data\<close> drops the rows
  without a time stamp when it loads the file and reports "no data" for the same file.
\<close>

theorem error_after_statistics_keeps_numbers:
  "error (analyze_air_quality_data ''data.csv'' (Csv blank_times) NoDate NoDate False)
     = Some (ErrorAnalyzingData ValueError)
   \<and> record_count (analyze_air_quality_data ''data.csv'' (Csv blank_times) NoDate NoDate False) = 1
   \<and> average_pm25 (analyze_air_quality_data ''data.csv'' (Csv blank_times) NoDate NoDate False) = 10
   \<and> analyze_data failing_render (Csv blank_times) ''time_series'' NoDate NoDate
       = \<lparr>success = False, statistics = None, viz_type = ''time_series'', viz_path = None,
          viz_description = None, analyze_error = Some NoDataForAnalysis\<rparr>"
  unfolding analyze_reached[OF blank_times_reached] blank_times_columns option.case
    error_analyze_resolved analyze_resolved_fields blank_times_facts
    basic_pm25_valid[OF blank_times_facts(3)]
    analyze_data_no_data[OF disjI2[OF blank_times_loaded]]
  by (simp add: list_mean_def)

section \<open>The chunk loop of correlation_large.py\<close>

lemma dropna_append [simp]: "dropna (xs @ ys) = dropna xs @ dropna ys"
  by (induction xs rule: dropna.induct) simp_all

lemma series_sum_Nil [simp]: "series_sum [] = 0"
  by (simp add: series_sum_def)

lemma series_mult_append [simp]:
  "length xs = length us \<Longrightarrow>
   series_mult (xs @ ys) (us @ vs) = series_mult xs us @ series_mult ys vs"
  by (induction xs us rule: series_mult.induct) simp_all

lemma series_mult_Nil [simp]: "series_mult [] ys = []"
  by (cases ys) simp_all

lemma col_rows_update [simp]: "col (df\<lparr>rows := rs\<rparr>) c = map (\<lambda>r. cells r c) rs"
  by (simp add: col_def)

lemma has_col_rows_update [simp]: "has_col (df\<lparr>rows := rs\<rparr>) c = has_col df c"
  by (simp add: has_col_def)

lemma len_rows_update [simp]: "len (df\<lparr>rows := rs\<rparr>) = length rs"
  by (simp add: len_def)

lemma accumulate_rows:
  "rows c = rows c' \<Longrightarrow> accumulate a c = accumulate a c'"
  by (simp add: accumulate_def col_def len_def)

lemma rows_filter_rows [simp]: "rows (filter_rows P df) = filter P (rows df)"
  by (simp add: filter_rows_def)

lemma rows_dropna_rows [simp]:
  "rows (dropna_rows cs df) = filter (\<lambda>r. \<forall>c \<in> set cs. cells r c \<noteq> None) (rows df)"
  by (simp add: dropna_rows_def)

lemma columns_dropna_rows [simp]: "columns (dropna_rows cs df) = columns df"
  by (simp add: dropna_rows_def)

lemma date_filter_columns [simp]: "columns (date_filter s e df) = columns df"
  by (simp add: date_filter_def split: option.split)

lemma has_col_date_filter [simp]: "has_col (date_filter s e df) c = has_col df c"
  by (simp add: has_col_def)

lemma rows_date_filter_append:
  "rows (date_filter s e (df\<lparr>rows := xs @ ys\<rparr>))
     = rows (date_filter s e (df\<lparr>rows := xs\<rparr>)) @ rows (date_filter s e (df\<lparr>rows := ys\<rparr>))"
  by (simp add: date_filter_def split: option.split)

lemma rows_assign_col [simp]:
  "rows (assign_col t s df) = map (\<lambda>r. r\<lparr>cells := (cells r)(t := cells r s)\<rparr>) (rows df)"
  by (simp add: assign_col_def)

lemma map_stream_fields_cases:
  "map_stream_fields chunk =
     (if has_col chunk ''field3'' \<and> has_col chunk ''field4''
      then (if has_col chunk ''field1'' \<and> has_col chunk ''field2''
            then assign_col ''temperature'' ''field2'' (assign_col ''humidity'' ''field1''
                   (assign_col ''pm10'' ''field4'' (assign_col ''pm25'' ''field3'' chunk)))
            else assign_col ''pm10'' ''field4'' (assign_col ''pm25'' ''field3'' chunk))
      else (if has_col chunk ''field1'' \<and> has_col chunk ''field2''
            then assign_col ''temperature'' ''field2'' (assign_col ''humidity'' ''field1'' chunk)
            else chunk))"
  by (auto simp add: map_stream_fields_def Let_def)

lemma has_col_map_stream_fields_rows [simp]:
  "has_col (map_stream_fields (df\<lparr>rows := rs\<rparr>)) c = has_col (map_stream_fields df) c"
  by (simp add: map_stream_fields_cases)

lemma rows_map_stream_fields_append:
  "rows (map_stream_fields (df\<lparr>rows := xs @ ys\<rparr>))
     = rows (map_stream_fields (df\<lparr>rows := xs\<rparr>))
       @ rows (map_stream_fields (df\<lparr>rows := ys\<rparr>))"
  by (simp add: map_stream_fields_cases)

lemma rows_map_stream_fields_Nil [simp]:
  "rows (map_stream_fields (df\<lparr>rows := []\<rparr>)) = []"
  by (simp add: map_stream_fields_cases)

lemma date_filter_rows_update:
  "date_filter s e (df\<lparr>rows := rs\<rparr>)
     = df\<lparr>rows := rows (date_filter s e (df\<lparr>rows := rs\<rparr>))\<rparr>"
  by (simp add: date_filter_def filter_rows_def split: option.split)

lemma rows_date_filter_Nil [simp]: "rows (date_filter s e (df\<lparr>rows := []\<rparr>)) = []"
  by (simp add: date_filter_def split: option.split)

lemma rows_rows_update: "rows (df\<lparr>rows := rs\<rparr>) = rs"
  by simp

lemma process_chunk_normal:
  assumes "date_filter s e (df\<lparr>rows := rs\<rparr>) = df\<lparr>rows := F\<rparr>"
    and "D = rows (dropna_rows [''pm25'', ''pm10'', ''temperature'', ''humidity'']
               (map_stream_fields (df\<lparr>rows := F\<rparr>)))"
  shows "process_chunk s e a (df\<lparr>rows := rs\<rparr>) =
     (if \<not> has_col df ''created_at'' then Inl (KeyError ''created_at'')
      else if BadTime \<in> set (map created_at rs) then Inl ParserError
      else if F = [] then Inr a
      else if \<not> (has_col (map_stream_fields df) ''pm25'' \<and> has_col (map_stream_fields df) ''pm10''
                \<and> has_col (map_stream_fields df) ''temperature''
                \<and> has_col (map_stream_fields df) ''humidity'')
      then Inl (KeyError ''dropna'')
      else if D = [] then Inr a
      else Inr (accumulate a (df\<lparr>rows := D\<rparr>)))"
proof -
  have acc: "accumulate a (dropna_rows [''pm25'', ''pm10'', ''temperature'', ''humidity'']
               (map_stream_fields (df\<lparr>rows := F\<rparr>))) = accumulate a (df\<lparr>rows := D\<rparr>)"
    unfolding assms(2) by (rule accumulate_rows) simp
  show ?thesis
    unfolding process_chunk_def Let_def assms(1) acc
    by (simp only: has_col_rows_update has_col_map_stream_fields_rows len_rows_update
        length_0_conv rows_rows_update len_def assms(2)[symmetric])
qed

declare split_rows.simps [simp del]

lemma split_rows_single:
  assumes "0 < k" and "rs \<noteq> []" and "length rs \<le> k"
  shows "split_rows k rs = [rs]"
proof -
  have "split_rows k (drop k rs) = []"
    using assms by (subst split_rows.simps) simp
  then show ?thesis
    using assms by (subst split_rows.simps) simp
qed

lemma read_csv_single:
  assumes "0 < k" and "len df \<le> k"
  shows "read_csv_chunks k df = [df]"
proof (cases "rows df = []")
  case True
  then show ?thesis by (simp add: read_csv_chunks_def)
next
  case False
  from split_rows_single[OF assms(1) False] assms(2) show ?thesis
    by (simp add: read_csv_chunks_def len_def)
qed

lemma process_chunks_single:
  assumes "0 < k" and "len df \<le> k"
  shows "process_chunks s e a (read_csv_chunks k df) = process_chunk s e a df"
  unfolding read_csv_single[OF assms] by (simp split: sum.split)

lemma gap_frame_has_col:
  "has_col gap_frame ''created_at''" "has_col gap_frame ''pm25''" "has_col gap_frame ''pm10''"
  "has_col gap_frame ''temperature''" "has_col gap_frame ''humidity''"
  "\<not> has_col gap_frame ''field1''" "\<not> has_col gap_frame ''field2''"
  "\<not> has_col gap_frame ''field3''" "\<not> has_col gap_frame ''field4''"
  by (simp_all add: gap_frame_def has_col_def)

lemma gap_frame_mapped: "map_stream_fields gap_frame = gap_frame"
  by (simp add: map_stream_fields_cases gap_frame_has_col)

lemma gap_frame_complete_cols:
  "col (dropna_rows [''pm25'', ''pm10'', ''temperature'', ''humidity''] gap_frame) ''pm25''
     = [Some 1, Some 2]"
  "col (dropna_rows [''pm25'', ''pm10'', ''temperature'', ''humidity''] gap_frame) ''pm10''
     = [Some 1, Some 2]"
  "col (dropna_rows [''pm25'', ''pm10'', ''temperature'', ''humidity''] gap_frame) ''temperature''
     = [Some 1, Some 2]"
  "col (dropna_rows [''pm25'', ''pm10'', ''temperature'', ''humidity''] gap_frame) ''humidity''
     = [Some 1, Some 2]"
  "len (dropna_rows [''pm25'', ''pm10'', ''temperature'', ''humidity''] gap_frame) = 2"
  by (simp_all add: gap_frame_def col_def len_def)

lemma gap_frame_times:
  "BadTime \<notin> created_at ` set (rows gap_frame)" "len gap_frame = 3"
  by (simp_all add: gap_frame_def len_def)

lemma gap_frame_chunk:
  "process_chunk None None initial_acc gap_frame =
     Inr \<lparr>pm25_temp_products = 5, pm25_hum_products = 5, pm25_sum = 3, pm10_sum = 3,
          temp_sum = 3, hum_sum = 3, pm25_squared_sum = 5, temp_squared_sum = 5,
          hum_squared_sum = 5, count = 2\<rparr>"
  unfolding process_chunk_def Let_def
  by (simp add: date_filter_def gap_frame_mapped gap_frame_has_col gap_frame_times
      accumulate_def gap_frame_complete_cols initial_acc_def series_sum_def double_eval)

lemma gap_frame_streaming:
  "create_correlation_chunked 50000 (Csv gap_frame) NoDate NoDate
     = Inr (CorrelationOutput (Some 1) (Some 1) 2)"
proof -
  have "process_chunks None None initial_acc (read_csv_chunks 50000 gap_frame)
     = Inr \<lparr>pm25_temp_products = 5, pm25_hum_products = 5, pm25_sum = 3, pm10_sum = 3,
          temp_sum = 3, hum_sum = 3, pm25_squared_sum = 5, temp_squared_sum = 5,
          hum_squared_sum = 5, count = 2\<rparr>"
    using gap_frame_chunk by (simp add: process_chunks_single gap_frame_times)
  then show ?thesis
    by (simp add: create_correlation_chunked_def to_bound_def finish_def
        calculate_correlation_def double_eval)
qed

section \<open>The date filter of the chunk loop\<close>

lemma date_filter_one_bound:
  "s = None \<or> e = None \<Longrightarrow> date_filter s e chunk = chunk"
  by (auto simp add: date_filter_def split: option.split)

lemma process_chunk_one_bound:
  "s = None \<or> e = None \<Longrightarrow> process_chunk s e a chunk = process_chunk None None a chunk"
  unfolding process_chunk_def by (simp only: date_filter_one_bound simp_thms)

lemma process_chunks_one_bound:
  "s = None \<or> e = None \<Longrightarrow> process_chunks s e a chunks = process_chunks None None a chunks"
  by (induction chunks arbitrary: a) (simp_all only: process_chunks.simps process_chunk_one_bound)

lemma rows_map_stream_fields_empty:
  "rows chunk = [] \<Longrightarrow> rows (map_stream_fields chunk) = []"
  by (simp add: map_stream_fields_cases)

lemma count_accumulate: "count (accumulate a chunk) = count a + len chunk"
  by (simp add: accumulate_def)

lemma process_chunk_count:
  assumes "process_chunk None None a chunk = Inr a'"
  shows "count a' = count a
     + len (dropna_rows [''pm25'', ''pm10'', ''temperature'', ''humidity'']
              (map_stream_fields chunk))"
proof (cases "len chunk = 0")
  case True
  then have "rows (map_stream_fields chunk) = []"
    by (intro rows_map_stream_fields_empty) (simp add: len_def)
  then have "len (dropna_rows [''pm25'', ''pm10'', ''temperature'', ''humidity'']
              (map_stream_fields chunk)) = 0"
    by (simp only: len_def rows_dropna_rows filter.simps list.size)
  moreover from assms True have "a' = a"
    unfolding process_chunk_def Let_def date_filter_one_bound[OF disjI1[OF refl]]
    by (simp split: if_splits)
  ultimately show ?thesis by simp
next
  case False
  with assms show ?thesis
    unfolding process_chunk_def Let_def date_filter_one_bound[OF disjI1[OF refl]]
    by (auto simp add: count_accumulate split: if_splits)
qed

text \<open>
  Claim C10.  When exactly one of the two bounds is given, the result of the streaming
  aggregator is the result without any bound: the date filter leaves every chunk as it is,
  and a pass of the loop body that returns adds to the count the number of rows of the chunk
  that have all four metrics, whatever their time stamps.  The filter is applied when both
  bounds are given.
\<close>

theorem date_filter_needs_both_bounds:
  assumes "(start_date = NoDate \<and> end_date = Date e) \<or> (start_date = Date s \<and> end_date = NoDate)"
  shows "create_correlation_chunked k f start_date end_date
           = create_correlation_chunked k f NoDate NoDate
     \<and> (\<forall>sb eb. to_bound start_date = Inr sb \<and> to_bound end_date = Inr eb \<longrightarrow>
           (\<forall>chunk. date_filter sb eb chunk = chunk)
         \<and> (\<forall>a chunk a'. process_chunk sb eb a chunk = Inr a' \<longrightarrow>
               count a' = count a
                 + len (dropna_rows [''pm25'', ''pm10'', ''temperature'', ''humidity'']
                          (map_stream_fields chunk))))
     \<and> (\<forall>s' e' chunk. date_filter (Some s') (Some e') chunk
           = filter_rows (\<lambda>r. time_ge (created_at r) s' \<and> time_le (created_at r) e') chunk)"
proof -
  from assms have one: "\<exists>sb eb. to_bound start_date = Inr sb \<and> to_bound end_date = Inr eb
     \<and> (sb = None \<or> eb = None)"
    by (auto simp add: to_bound_def)
  then obtain sb eb where b: "to_bound start_date = Inr sb" "to_bound end_date = Inr eb"
    "sb = None \<or> eb = None" by blast
  have 1: "create_correlation_chunked k f start_date end_date
           = create_correlation_chunked k f NoDate NoDate"
    unfolding create_correlation_chunked_def b
    by (cases f) (simp_all add: to_bound_def process_chunks_one_bound[OF b(3)])
  have 2: "\<forall>sb eb. to_bound start_date = Inr sb \<and> to_bound end_date = Inr eb \<longrightarrow>
           (\<forall>chunk. date_filter sb eb chunk = chunk)
         \<and> (\<forall>a chunk a'. process_chunk sb eb a chunk = Inr a' \<longrightarrow>
               count a' = count a
                 + len (dropna_rows [''pm25'', ''pm10'', ''temperature'', ''humidity'']
                          (map_stream_fields chunk)))"
  proof (intro allI impI, elim conjE)
    fix sb' eb' assume "to_bound start_date = Inr sb'" "to_bound end_date = Inr eb'"
    with b have n: "sb' = None \<or> eb' = None" by simp
    show "(\<forall>chunk. date_filter sb' eb' chunk = chunk)
         \<and> (\<forall>a chunk a'. process_chunk sb' eb' a chunk = Inr a' \<longrightarrow>
               count a' = count a
                 + len (dropna_rows [''pm25'', ''pm10'', ''temperature'', ''humidity'']
                          (map_stream_fields chunk)))"
      using date_filter_one_bound[OF n] process_chunk_count
      unfolding process_chunk_one_bound[OF n] by blast
  qed
  have 3: "\<forall>s' e' chunk. date_filter (Some s') (Some e') chunk
           = filter_rows (\<lambda>r. time_ge (created_at r) s' \<and> time_le (created_at r) e') chunk"
    by (simp add: date_filter_def)
  from 1 2 3 show ?thesis by (intro conjI)
qed

theorem date_filter_needs_both_bounds_witness:
  "create_correlation_chunked 50000 (Csv gap_frame) (Date 86400) NoDate
     = create_correlation_chunked 50000 (Csv gap_frame) NoDate NoDate
   \<and> create_correlation_chunked 50000 (Csv gap_frame) (Date 86400) NoDate
     = Inr (CorrelationOutput (Some 1) (Some 1) 2)
   \<and> date_filter (Some 86400) None gap_frame = gap_frame"
proof -
  note inst = date_filter_needs_both_bounds[of "Date 86400" NoDate 0 86400 50000 "Csv gap_frame"]
  have h: "(Date 86400 = NoDate \<and> NoDate = Date 0) \<or> (Date 86400 = Date 86400 \<and> NoDate = NoDate)"
    by simp
  have b: "to_bound (Date 86400) = Inr (Some 86400)" "to_bound NoDate = Inr None"
    by (simp_all add: to_bound_def)
  from inst[OF h] have 1: "create_correlation_chunked 50000 (Csv gap_frame) (Date 86400) NoDate
     = create_correlation_chunked 50000 (Csv gap_frame) NoDate NoDate" by blast
  from inst[OF h] b have 2: "date_filter (Some 86400) None gap_frame = gap_frame" by blast
  from 1 2 gap_frame_streaming show ?thesis by simp
qed

section \<open>The closed form of Pearson's coefficient\<close>

lemma sum_centered_products:
  fixes a b :: real
  shows "sum_list (map (\<lambda>(x, y). (x - a) * (y - b)) ps)
     = sum_list (map (\<lambda>(x, y). x * y) ps) - b * sum_list (map fst ps)
       - a * sum_list (map snd ps) + real (length ps) * a * b"
  by (induction ps) (auto simp add: algebra_simps)

lemma sum_centered_squares_fst:
  fixes a :: real
  shows "sum_list (map (\<lambda>(x, y). (x - a)\<^sup>2) ps)
     = sum_list (map (\<lambda>(x, y). x * x) ps) - 2 * a * sum_list (map fst ps)
       + real (length ps) * a\<^sup>2"
  by (induction ps) (auto simp add: algebra_simps power2_eq_square)

lemma sum_centered_squares_snd:
  fixes b :: real
  shows "sum_list (map (\<lambda>(x, y). (y - b)\<^sup>2) ps)
     = sum_list (map (\<lambda>(x, y). y * y) ps) - 2 * b * sum_list (map snd ps)
       + real (length ps) * b\<^sup>2"
  by (induction ps) (auto simp add: algebra_simps power2_eq_square)

lemma sum_squares_nonneg:
  "0 \<le> sum_list (map (\<lambda>(x, y). (x - a)\<^sup>2) ps)" "0 \<le> sum_list (map (\<lambda>(x, y). (y - b)\<^sup>2) ps)"
  for a b :: real
  by (induction ps) auto

text \<open>The closed form over running sums against the centred sums of Pearson's definition.\<close>

lemma closed_form_numerator:
  assumes "ps \<noteq> []"
  defines "n \<equiv> real (length ps)"
  shows "n * sum_list (map (\<lambda>(x, y). x * y) ps) - sum_list (map fst ps) * sum_list (map snd ps)
     = n * sum_list (map (\<lambda>(x, y). (x - sum_list (map fst ps) / n) * (y - sum_list (map snd ps) / n)) ps)"
proof -
  have n: "n \<noteq> 0" using assms by simp
  show ?thesis
    unfolding sum_centered_products n_def[symmetric]
    using n by (simp add: field_simps)
qed

lemma closed_form_fst:
  assumes "ps \<noteq> []"
  defines "n \<equiv> real (length ps)"
  shows "n * sum_list (map (\<lambda>(x, y). x * x) ps) - (sum_list (map fst ps))\<^sup>2
     = n * sum_list (map (\<lambda>(x, y). (x - sum_list (map fst ps) / n)\<^sup>2) ps)"
proof -
  have n: "n \<noteq> 0" using assms by simp
  show ?thesis
    unfolding sum_centered_squares_fst n_def[symmetric]
    using n by (simp add: field_simps power2_eq_square)
qed

lemma closed_form_snd:
  assumes "ps \<noteq> []"
  defines "n \<equiv> real (length ps)"
  shows "n * sum_list (map (\<lambda>(x, y). y * y) ps) - (sum_list (map snd ps))\<^sup>2
     = n * sum_list (map (\<lambda>(x, y). (y - sum_list (map snd ps) / n)\<^sup>2) ps)"
proof -
  have n: "n \<noteq> 0" using assms by simp
  show ?thesis
    unfolding sum_centered_squares_snd n_def[symmetric]
    using n by (simp add: field_simps power2_eq_square)
qed

lemma closed_form_pearson:
  assumes "ps \<noteq> []"
  shows "closed_form (sum_list (map (\<lambda>(x, y). x * y) ps)) (sum_list (map fst ps))
       (sum_list (map snd ps)) (sum_list (map (\<lambda>(x, y). x * x) ps))
       (sum_list (map (\<lambda>(x, y). y * y) ps)) (length ps)
     = (case pearson ps of None \<Rightarrow> Some 0 | Some r \<Rightarrow> Some r)"
proof -
  define n where "n = real (length ps)"
  define mx where "mx = sum_list (map fst ps) / n"
  define my where "my = sum_list (map snd ps) / n"
  define cov where "cov = sum_list (map (\<lambda>(x, y). (x - mx) * (y - my)) ps)"
  define ssx where "ssx = sum_list (map (\<lambda>(x, y). (x - mx)\<^sup>2) ps)"
  define ssy where "ssy = sum_list (map (\<lambda>(x, y). (y - my)\<^sup>2) ps)"
  have n: "0 < n" using assms by (simp add: n_def)
  have len: "\<not> length ps < 1" using assms by (cases ps) simp_all
  have num: "n * sum_list (map (\<lambda>(x, y). x * y) ps) - sum_list (map fst ps) * sum_list (map snd ps)
     = n * cov"
    unfolding cov_def mx_def my_def n_def by (rule closed_form_numerator[OF assms])
  have dx: "n * sum_list (map (\<lambda>(x, y). x * x) ps) - (sum_list (map fst ps))\<^sup>2 = n * ssx"
    unfolding ssx_def mx_def n_def by (rule closed_form_fst[OF assms])
  have dy: "n * sum_list (map (\<lambda>(x, y). y * y) ps) - (sum_list (map snd ps))\<^sup>2 = n * ssy"
    unfolding ssy_def my_def n_def by (rule closed_form_snd[OF assms])
  have nonneg: "0 \<le> ssx" "0 \<le> ssy"
    unfolding ssx_def ssy_def by (rule sum_squares_nonneg)+
  have rad: "(n * ssx) * (n * ssy) = n\<^sup>2 * (ssx * ssy)"
    by (simp add: power2_eq_square)
  have rad0: "\<not> n\<^sup>2 * (ssx * ssy) < 0"
    using nonneg n by (simp add: not_less)
  have root: "sqrt (n\<^sup>2 * (ssx * ssy)) = n * sqrt (ssx * ssy)"
    using n by (simp add: real_sqrt_mult)
  have p: "pearson ps = (if sqrt (ssx * ssy) \<noteq> 0 then Some (cov / sqrt (ssx * ssy)) else None)"
    unfolding pearson_def Let_def
    by (simp only: len if_False n_def[symmetric] mx_def[symmetric] my_def[symmetric]
        cov_def[symmetric] ssx_def[symmetric] ssy_def[symmetric])
  show ?thesis
    unfolding closed_form_def Let_def n_def[symmetric] num dx dy rad p
    using n rad0 by (simp add: root)
qed

section \<open>Series without variance\<close>

lemma sum_fst_constant:
  "\<forall>p \<in> set ps. fst p = c \<Longrightarrow> sum_list (map fst ps) = real (length ps) * (c::real)"
  by (induction ps) (auto simp add: algebra_simps)

lemma sum_snd_constant:
  "\<forall>p \<in> set ps. snd p = c \<Longrightarrow> sum_list (map snd ps) = real (length ps) * (c::real)"
  by (induction ps) (auto simp add: algebra_simps)

lemma centered_squares_fst_constant:
  "\<forall>p \<in> set ps. fst p = c \<Longrightarrow> sum_list (map (\<lambda>(x, y). (x - c)\<^sup>2) ps) = (0::real)"
  by (induction ps) auto

lemma centered_squares_snd_constant:
  "\<forall>p \<in> set ps. snd p = c \<Longrightarrow> sum_list (map (\<lambda>(x, y). (y - c)\<^sup>2) ps) = (0::real)"
  by (induction ps) auto

lemma pearson_zero_variance:
  assumes "(\<forall>p \<in> set ps. fst p = c) \<or> (\<forall>p \<in> set ps. snd p = c)"
  shows "pearson ps = None"
proof (cases "ps = []")
  case True
  then show ?thesis by (simp add: pearson_def)
next
  case False
  then have n: "real (length ps) \<noteq> 0" by simp
  from assms show ?thesis
  proof
    assume a: "\<forall>p \<in> set ps. fst p = c"
    have "sum_list (map fst ps) / real (length ps) = c"
      unfolding sum_fst_constant[OF a] using n by simp
    then show ?thesis
      unfolding pearson_def Let_def by (simp add: centered_squares_fst_constant[OF a])
  next
    assume a: "\<forall>p \<in> set ps. snd p = c"
    have "sum_list (map snd ps) / real (length ps) = c"
      unfolding sum_snd_constant[OF a] using n by simp
    then show ?thesis
      unfolding pearson_def Let_def by (simp add: centered_squares_snd_constant[OF a])
  qed
qed

text \<open>The closed form on the exact sums of a series without variance.\<close>

lemma closed_form_zero_variance:
  assumes "ps \<noteq> []" and "(\<forall>p \<in> set ps. fst p = c) \<or> (\<forall>p \<in> set ps. snd p = c)"
  shows "closed_form (sum_list (map (\<lambda>(x, y). x * y) ps)) (sum_list (map fst ps))
       (sum_list (map snd ps)) (sum_list (map (\<lambda>(x, y). x * x) ps))
       (sum_list (map (\<lambda>(x, y). y * y) ps)) (length ps) = Some 0"
  unfolding closed_form_pearson[OF assms(1)] pearson_zero_variance[OF assms(2)]
  by simp

lemma flat_pm25_cols:
  "col flat_pm25 ''pm25'' = [Some 5, Some 5, Some 5]"
  "col flat_pm25 ''pm10'' = [Some 0, Some 1, Some 2]"
  "col flat_pm25 ''temperature'' = [Some 0, Some 1, Some 2]"
  "col flat_pm25 ''humidity'' = [Some 0, Some 1, Some 2]"
  by (simp_all add: flat_pm25_def col_def)

lemma flat_pm25_has_col:
  "has_col flat_pm25 ''created_at''" "has_col flat_pm25 ''pm25''" "has_col flat_pm25 ''pm10''"
  "has_col flat_pm25 ''temperature''" "has_col flat_pm25 ''humidity''"
  by (simp_all add: flat_pm25_def has_col_def)

lemma corr_flat: "corr [Some 5, Some 5, Some 5] [Some 0, Some 1, Some 2] = None"
  by (simp add: corr_def pearson_def)

lemma corr_flat_both: "corr [Some 5, Some 5, Some 5] [Some 5, Some 5, Some 5] = None"
  by (simp add: corr_def pearson_def)

lemma corr_line: "corr [Some 0, Some 1, Some 2] [Some 0, Some 1, Some 2] = Some 1"
  by (simp add: corr_def pearson_def)

lemma corr_flat_snd: "corr [Some 5, Some 5, Some 5] [Some 0, Some 1, Some 2] = None"
  by (simp add: corr_def pearson_def)

lemma float_round_one: "float_round 1 3 = 1"
  by (simp add: double_eval)

lemma flat_pm25_reached:
  "len flat_pm25 \<noteq> 0"
  "filter_start NoDate (to_datetime_coerce flat_pm25) = Inr (to_datetime_coerce flat_pm25)"
  "filter_end NoDate (to_datetime_coerce flat_pm25) = Inr (to_datetime_coerce flat_pm25)"
  "len (to_datetime_coerce flat_pm25) \<noteq> 0"
  by (simp_all add: flat_pm25_def len_def filter_start_def filter_end_def
      to_datetime_coerce_def)

lemma flat_pm25_coerced: "to_datetime_coerce flat_pm25 = flat_pm25"
  by (simp add: flat_pm25_def to_datetime_coerce_def)

lemma flat_pm25_columns:
  "pm25_col flat_pm25 = Some ''pm25''" "pm10_col flat_pm25 = Some ''pm10''"
  "temp_col flat_pm25 = Some ''temperature''" "humidity_col flat_pm25 = Some ''humidity''"
  by (simp_all add: pm25_col_def pm10_col_def temp_col_def humidity_col_def flat_pm25_has_col)

lemma flat_pm25_times: "time_min flat_pm25 = Some 0" "time_max flat_pm25 = Some 7200"
  by (simp_all add: flat_pm25_def time_min_def time_max_def)

lemma flat_pm25_correlations:
  "calculate_correlations flat_pm25 (Some ''pm25'') (Some ''pm10'') (Some ''temperature'')
       (Some ''humidity'')
     = Inr [(''pm25_temp'', None), (''pm25_humidity'', None), (''pm10_temp'', Some 1),
            (''pm10_humidity'', Some 1), (''pm25_pm10'', None)]"
  unfolding calculate_correlations_def pair_corr_def
  by (simp add: flat_pm25_has_col flat_pm25_cols corr_flat corr_line round_opt_def float_round_one)

lemma correlations_extended:
  "calculate_correlations df (Some a) (Some b) c d = Inr cs \<Longrightarrow>
     correlations (extended_analysis df a b c d r) = Some cs"
  by (simp add: extended_analysis_def Let_def split: sum.split)

lemma correlations_resolved:
  assumes "time_min df = Some lo" and "time_max df = Some hi"
    and "calculate_correlations df (Some a) (Some b) c d = Inr cs"
  shows "correlations (analyze_resolved df a b c d True) = Some cs"
  unfolding analyze_resolved_def Let_def assms(1,2)
  by (simp add: correlations_extended[OF assms(3)])

lemma flat_pm25_mapped: "map_stream_fields flat_pm25 = flat_pm25"
  by (simp add: map_stream_fields_cases flat_pm25_def has_col_def)

lemma flat_pm25_chunk:
  "process_chunk None None initial_acc flat_pm25 =
     Inr \<lparr>pm25_temp_products = 15, pm25_hum_products = 15, pm25_sum = 15, pm10_sum = 3,
          temp_sum = 3, hum_sum = 3, pm25_squared_sum = 75, temp_squared_sum = 5,
          hum_squared_sum = 5, count = 3\<rparr>"
proof -
  have rows: "rows (dropna_rows [''pm25'', ''pm10'', ''temperature'', ''humidity''] flat_pm25)
     = rows flat_pm25"
    by (simp add: flat_pm25_def)
  have cols: "col (dropna_rows [''pm25'', ''pm10'', ''temperature'', ''humidity''] flat_pm25) c
     = col flat_pm25 c" for c
    unfolding col_def rows ..
  have len: "len (dropna_rows [''pm25'', ''pm10'', ''temperature'', ''humidity''] flat_pm25) = 3"
    unfolding len_def rows by (simp add: flat_pm25_def)
  have t: "BadTime \<notin> created_at ` set (rows flat_pm25)" "len flat_pm25 = 3"
    by (simp_all add: flat_pm25_def len_def)
  show ?thesis
    unfolding process_chunk_def Let_def
    by (simp add: date_filter_def flat_pm25_mapped flat_pm25_has_col t
        accumulate_def cols len flat_pm25_cols initial_acc_def series_sum_def double_eval)
qed

text \<open>
  Claim C4 at a file whose PM2.5 column is constant.  The streaming formula returns 0 there
  (its guard \<open>if denominator == 0\<close>), but \<open>calculate_correlations\<close> has no such guard: the coefficient of pandas is NaN, and NaN
  is what the extended analysis reports for the three pairs with PM2.5.
\<close>

theorem zero_variance_correlation_is_nan:
  "correlations (analyze_air_quality_data ''data.csv'' (Csv flat_pm25) NoDate NoDate True)
     = Some [(''pm25_temp'', None), (''pm25_humidity'', None), (''pm10_temp'', Some 1),
             (''pm10_humidity'', Some 1), (''pm25_pm10'', None)]
   \<and> calculate_correlations flat_pm25 (Some ''pm25'') (Some ''pm10'') (Some ''temperature'')
       (Some ''humidity'')
     = Inr [(''pm25_temp'', None), (''pm25_humidity'', None), (''pm10_temp'', Some 1),
            (''pm10_humidity'', Some 1), (''pm25_pm10'', None)]
   \<and> create_correlation_chunked 50000 (Csv flat_pm25) NoDate NoDate
     = Inr (CorrelationOutput (Some 0) (Some 0) 3)"
proof -
  have "analyze_air_quality_data ''data.csv'' (Csv flat_pm25) NoDate NoDate True
     = analyze_resolved flat_pm25 ''pm25'' ''pm10'' (Some ''temperature'') (Some ''humidity'') True"
    unfolding analyze_reached[OF flat_pm25_reached(1) flat_pm25_has_col(1) flat_pm25_reached(2-4)]
      flat_pm25_coerced flat_pm25_columns
    by simp
  then have 1: "correlations
       (analyze_air_quality_data ''data.csv'' (Csv flat_pm25) NoDate NoDate True)
     = Some [(''pm25_temp'', None), (''pm25_humidity'', None), (''pm10_temp'', Some 1),
             (''pm10_humidity'', Some 1), (''pm25_pm10'', None)]"
    using correlations_resolved[OF flat_pm25_times flat_pm25_correlations] by simp
  have "process_chunks None None initial_acc (read_csv_chunks 50000 flat_pm25)
     = Inr \<lparr>pm25_temp_products = 15, pm25_hum_products = 15, pm25_sum = 15, pm10_sum = 3,
          temp_sum = 3, hum_sum = 3, pm25_squared_sum = 75, temp_squared_sum = 5,
          hum_squared_sum = 5, count = 3\<rparr>"
    using flat_pm25_chunk by (simp add: process_chunks_single flat_pm25_def len_def)
  then have 2: "create_correlation_chunked 50000 (Csv flat_pm25) NoDate NoDate
     = Inr (CorrelationOutput (Some 0) (Some 0) 3)"
    by (simp add: create_correlation_chunked_def to_bound_def finish_def
        calculate_correlation_def double_eval)
  from 1 flat_pm25_correlations 2 show ?thesis by (intro conjI)
qed

section \<open>Data quality\<close>




lemma select_col_Some: "select_col df (Some c) = Inr vs \<Longrightarrow> vs = col df c"
  by (simp add: select_col_def split: if_splits)

lemma dropna_replicate [simp]: "dropna (replicate k (Some v)) = replicate k v"
  by (induction k) simp_all
















lemma dropna_replicate_None [simp]: "dropna (replicate k None) = []"
  by (induction k) simp_all






section \<open>Legacy names and semantic names\<close>

lemma insort_key_map:
  "insort_key k (f x) (map f xs) = map f (insort_key (\<lambda>y. k (f y)) x xs)"
  by (induction xs) simp_all

lemma sort_key_map: "sort_key k (map f xs) = map f (sort_key (\<lambda>y. k (f y)) xs)"
  by (induction xs) (simp_all add: insort_key_map)

lemma view_created_at: "map created_at rs = map fst (map semantic_view rs)"
  by (simp add: semantic_view_def)

lemma view_cells:
  "map (\<lambda>r. cells r ''pm25'') rs = map (\<lambda>v. fst (snd v)) (map semantic_view rs)"
  "map (\<lambda>r. cells r ''pm10'') rs = map (\<lambda>v. fst (snd (snd v))) (map semantic_view rs)"
  "map (\<lambda>r. cells r ''temperature'') rs
     = map (\<lambda>v. fst (snd (snd (snd v)))) (map semantic_view rs)"
  "map (\<lambda>r. cells r ''humidity'') rs
     = map (\<lambda>v. snd (snd (snd (snd v)))) (map semantic_view rs)"
  by (simp_all add: semantic_view_def)

lemma same_view:
  assumes "map semantic_view (rows X) = map semantic_view (rows X')"
  shows "len X = len X'" "time_min X = time_min X'" "time_max X = time_max X'"
    "col X ''pm25'' = col X' ''pm25''" "col X ''pm10'' = col X' ''pm10''"
    "col X ''temperature'' = col X' ''temperature''" "col X ''humidity'' = col X' ''humidity''"
proof -
  show "len X = len X'"
    unfolding len_def using arg_cong[OF assms, of length] by simp
  show "time_min X = time_min X'" "time_max X = time_max X'"
    unfolding time_min_def time_max_def view_created_at assms by (rule refl)+
  show "col X ''pm25'' = col X' ''pm25''" "col X ''pm10'' = col X' ''pm10''"
    "col X ''temperature'' = col X' ''temperature''" "col X ''humidity'' = col X' ''humidity''"
    unfolding col_def view_cells assms by (rule refl)+
qed

lemma calculate_statistics_view:
  assumes "map semantic_view (rows X) = map semantic_view (rows X')"
    and "has_col X ''created_at'' = has_col X' ''created_at''"
    and "has_col X ''pm25'' = has_col X' ''pm25''"
    and "has_col X ''pm10'' = has_col X' ''pm10''"
    and "has_col X ''temperature'' = has_col X' ''temperature''"
    and "has_col X ''humidity'' = has_col X' ''humidity''"
  shows "calculate_statistics (Some X) = calculate_statistics (Some X')"
  unfolding calculate_statistics_def optional_summary_def option.case
    same_view[OF assms(1)] assms(2-6) ..

text \<open>Row filters that read the view only.\<close>

lemma view_filter:
  assumes "\<And>r. P r = Q (semantic_view r)"
    and "map semantic_view (rows X) = map semantic_view (rows X')"
  shows "map semantic_view (rows (filter_rows P X)) = map semantic_view (rows (filter_rows P X'))"
proof -
  have P: "P = Q \<circ> semantic_view" using assms(1) by (simp add: fun_eq_iff)
  show ?thesis
    unfolding rows_filter_rows P filter_map[symmetric] assms(2) ..
qed

lemma view_filter_start:
  assumes "map semantic_view (rows X) = map semantic_view (rows X')"
  shows "(filter_start d X = Inl e \<longleftrightarrow> filter_start d X' = Inl e)
     \<and> (\<forall>Y Y'. filter_start d X = Inr Y \<and> filter_start d X' = Inr Y' \<longrightarrow>
           map semantic_view (rows Y) = map semantic_view (rows Y')
           \<and> columns Y = columns X \<and> columns Y' = columns X')"
proof (cases d)
  case (Date s)
  have "map semantic_view (rows (filter_rows (\<lambda>r. time_ge (created_at r) s) X))
     = map semantic_view (rows (filter_rows (\<lambda>r. time_ge (created_at r) s) X'))"
    by (rule view_filter[where Q = "\<lambda>v. time_ge (fst v) s", OF _ assms])
      (simp add: semantic_view_def)
  then show ?thesis by (simp add: filter_start_def Date)
qed (simp_all add: filter_start_def assms)

lemma view_filter_end:
  assumes "map semantic_view (rows X) = map semantic_view (rows X')"
  shows "(filter_end d X = Inl e \<longleftrightarrow> filter_end d X' = Inl e)
     \<and> (\<forall>Y Y'. filter_end d X = Inr Y \<and> filter_end d X' = Inr Y' \<longrightarrow>
           map semantic_view (rows Y) = map semantic_view (rows Y')
           \<and> columns Y = columns X \<and> columns Y' = columns X')"
proof (cases d)
  case (Date s)
  have "map semantic_view (rows (filter_rows (\<lambda>r. time_le (created_at r) s) X))
     = map semantic_view (rows (filter_rows (\<lambda>r. time_le (created_at r) s) X'))"
    by (rule view_filter[where Q = "\<lambda>v. time_le (fst v) s", OF _ assms])
      (simp add: semantic_view_def)
  then show ?thesis by (simp add: filter_end_def Date)
qed (simp_all add: filter_end_def assms)

lemma view_dropna_pollutants:
  assumes "map semantic_view (rows X) = map semantic_view (rows X')"
  shows "map semantic_view (rows (dropna_rows [''pm25'', ''pm10''] X))
     = map semantic_view (rows (dropna_rows [''pm25'', ''pm10''] X'))"
  unfolding dropna_rows_def
  by (rule view_filter[where Q = "\<lambda>v. fst (snd v) \<noteq> None \<and> fst (snd (snd v)) \<noteq> None",
        OF _ assms])
    (simp add: semantic_view_def)

lemma view_zip:
  "map semantic_view rs = zip (map created_at rs) (zip (map (\<lambda>r. cells r ''pm25'') rs)
     (zip (map (\<lambda>r. cells r ''pm10'') rs) (zip (map (\<lambda>r. cells r ''temperature'') rs)
       (map (\<lambda>r. cells r ''humidity'') rs))))"
  by (induction rs) (simp_all add: semantic_view_def)

lemma view_by_columns:
  "map semantic_view (rows X) = zip (map created_at (rows X)) (zip (col X ''pm25'')
     (zip (col X ''pm10'') (zip (col X ''temperature'') (col X ''humidity''))))"
  unfolding col_def by (rule view_zip)

lemma created_at_assign [simp]:
  "map created_at (rows (assign_col t s X)) = map created_at (rows X)"
  "map created_at (rows (assign_nan t X)) = map created_at (rows X)"
  by (simp_all add: assign_col_def assign_nan_def o_def)

lemma created_at_map_field [simp]:
  "map created_at (rows (map_field X (t, ps))) = map created_at (rows X)"
  by (simp add: map_field.simps split: option.split)

lemma created_at_map_fields: "map created_at (rows (map_fields X)) = map created_at (rows X)"
  unfolding map_fields_unfold by simp

lemma rows_relabel:
  "rows (relabel df) = map (\<lambda>r. r\<lparr>cells := relabel_cells (cells r)\<rparr>) (rows df)"
  "columns (relabel df) = map semantic_name (columns df)"
  by (simp_all add: relabel_def)

lemma semantic_name_eq:
  "semantic_name c = ''pm25'' \<longleftrightarrow> c = ''field3'' \<or> c = ''pm25''"
  "semantic_name c = ''pm10'' \<longleftrightarrow> c = ''field4'' \<or> c = ''pm10''"
  "semantic_name c = ''temperature'' \<longleftrightarrow> c = ''field2'' \<or> c = ''temperature''"
  "semantic_name c = ''humidity'' \<longleftrightarrow> c = ''field1'' \<or> c = ''humidity''"
  "semantic_name c \<noteq> ''field1''" "semantic_name c \<noteq> ''field2''"
  "semantic_name c \<noteq> ''field3''" "semantic_name c \<noteq> ''field4''"
  "semantic_name c = ''created_at'' \<longleftrightarrow> c = ''created_at''"
  by (simp_all add: semantic_name_def)

lemma has_col_relabel_iff:
  "has_col (relabel df) t \<longleftrightarrow> (\<exists>c \<in> set (columns df). semantic_name c = t)"
  unfolding has_col_def rows_relabel by auto

lemma has_col_relabel:
  "has_col (relabel df) ''pm25'' \<longleftrightarrow> has_col df ''field3'' \<or> has_col df ''pm25''"
  "has_col (relabel df) ''pm10'' \<longleftrightarrow> has_col df ''field4'' \<or> has_col df ''pm10''"
  "has_col (relabel df) ''temperature'' \<longleftrightarrow> has_col df ''field2'' \<or> has_col df ''temperature''"
  "has_col (relabel df) ''humidity'' \<longleftrightarrow> has_col df ''field1'' \<or> has_col df ''humidity''"
  "\<not> has_col (relabel df) ''field1''" "\<not> has_col (relabel df) ''field2''"
  "\<not> has_col (relabel df) ''field3''" "\<not> has_col (relabel df) ''field4''"
  "has_col (relabel df) ''created_at'' \<longleftrightarrow> has_col df ''created_at''"
  unfolding has_col_relabel_iff by (auto simp add: has_col_def semantic_name_eq)

lemma col_relabel:
  "col (relabel df) ''pm25'' = col df ''field3''"
  "col (relabel df) ''pm10'' = col df ''field4''"
  "col (relabel df) ''temperature'' = col df ''field2''"
  "col (relabel df) ''humidity'' = col df ''field1''"
  by (simp_all add: col_def rows_relabel relabel_cells_def o_def)

lemma created_at_relabel: "map created_at (rows (relabel df)) = map created_at (rows df)"
  by (simp add: rows_relabel o_def)

lemma len_relabel: "len (relabel df) = len df"
  by (simp add: len_def rows_relabel)

lemma legacy_only_columns:
  "columns X = columns df \<Longrightarrow> legacy_only X = legacy_only df"
  by (simp add: legacy_only_def has_col_def)

lemma relabel_to_datetime_coerce:
  "to_datetime_coerce (relabel df) = relabel (to_datetime_coerce df)"
  by (simp add: to_datetime_coerce_def relabel_def o_def)

lemma relabel_filter_rows:
  assumes "\<And>r cs. P (r\<lparr>cells := cs\<rparr>) = P r"
  shows "filter_rows P (relabel df) = relabel (filter_rows P df)"
  by (simp add: filter_rows_def relabel_def filter_map o_def assms)

lemma relabel_sort_values: "sort_values (relabel df) = relabel (sort_values df)"
  by (simp add: sort_values_def relabel_def sort_key_map)

lemma relabel_prepare:
  "sort_values (filter_rows (\<lambda>r. created_at r \<noteq> NaT) (to_datetime_coerce (relabel df)))
     = relabel (sort_values (filter_rows (\<lambda>r. created_at r \<noteq> NaT) (to_datetime_coerce df)))"
  unfolding relabel_to_datetime_coerce
  by (subst relabel_filter_rows) (simp_all add: relabel_sort_values)

lemma columns_prepare:
  "columns (sort_values (filter_rows P (to_datetime_coerce df))) = columns df"
  by (simp add: sort_values_def)

lemma map_fields_relabel_view:
  assumes "legacy_only X"
  shows "map semantic_view (rows (map_fields (relabel X))) = map semantic_view (rows (map_fields X))"
proof -
  from assms have no: "\<not> has_col X ''pm25''" "\<not> has_col X ''pm10''"
    "\<not> has_col X ''temperature''" "\<not> has_col X ''humidity''"
    by (simp_all add: legacy_only_def)
  have n: "map (\<lambda>r. None :: real option) (rows (relabel X)) = map (\<lambda>r. None) (rows X)"
    by (simp add: rows_relabel o_def)
  have p25: "col (map_fields (relabel X)) ''pm25'' = col (map_fields X) ''pm25''"
    by (simp add: map_fields_pm25 has_col_relabel col_relabel n no)
  have p10: "col (map_fields (relabel X)) ''pm10'' = col (map_fields X) ''pm10''"
    by (simp add: map_fields_pm10 has_col_relabel col_relabel n no)
  have pt: "col (map_fields (relabel X)) ''temperature'' = col (map_fields X) ''temperature''"
    by (simp add: map_fields_temperature has_col_relabel col_relabel n no)
  have ph: "col (map_fields (relabel X)) ''humidity'' = col (map_fields X) ''humidity''"
    by (simp add: map_fields_humidity has_col_relabel col_relabel n no)
  show ?thesis
    unfolding view_by_columns created_at_map_fields created_at_relabel p25 p10 pt ph ..
qed

lemma has_col_map_fields:
  "has_col (map_fields X) ''pm25''" "has_col (map_fields X) ''pm10''"
  "has_col (map_fields X) ''temperature''" "has_col (map_fields X) ''humidity''"
  "has_col (map_fields X) ''created_at'' = has_col X ''created_at''"
  unfolding map_fields_unfold by (simp_all only: has_col_map_field simp_thms) simp

lemma load_tail_view:
  assumes v: "map semantic_view (rows X) = map semantic_view (rows X')"
    and c: "\<And>c. c \<in> {''created_at'', ''pm25'', ''pm10'', ''temperature'', ''humidity''}
       \<Longrightarrow> has_col X c = has_col X' c"
  shows "calculate_statistics
       (case filter_start s X of Inl x \<Rightarrow> None
        | Inr df5 \<Rightarrow> (case filter_end e df5 of Inl x \<Rightarrow> None
            | Inr df6 \<Rightarrow> Some (dropna_rows [''pm25'', ''pm10''] df6)))
     = calculate_statistics
       (case filter_start s X' of Inl x \<Rightarrow> None
        | Inr df5 \<Rightarrow> (case filter_end e df5 of Inl x \<Rightarrow> None
            | Inr df6 \<Rightarrow> Some (dropna_rows [''pm25'', ''pm10''] df6)))"
proof (cases "filter_start s X")
  case (Inl x)
  with view_filter_start[OF v, of s x] show ?thesis by simp
next
  case (Inr Y)
  show ?thesis
  proof (cases "filter_start s X'")
    case (Inl x)
    with view_filter_start[OF v, of s x] Inr show ?thesis by simp
  next
    case Y': (Inr Y')
    from view_filter_start[OF v, of s] Inr Y'
    have vY: "map semantic_view (rows Y) = map semantic_view (rows Y')"
      and cY: "columns Y = columns X" "columns Y' = columns X'" by blast+
    show ?thesis
    proof (cases "filter_end e Y")
      case (Inl x)
      with view_filter_end[OF vY, of e x] Inr Y' show ?thesis by simp
    next
      case Z: (Inr Z)
      show ?thesis
      proof (cases "filter_end e Y'")
        case (Inl x)
        with view_filter_end[OF vY, of e x] Z show ?thesis by simp
      next
        case Z': (Inr Z')
        from view_filter_end[OF vY, of e] Z Z'
        have vZ: "map semantic_view (rows Z) = map semantic_view (rows Z')"
          and cZ: "columns Z = columns Y" "columns Z' = columns Y'" by blast+
        have hc: "has_col (dropna_rows [''pm25'', ''pm10''] Z) c = has_col X c"
            "has_col (dropna_rows [''pm25'', ''pm10''] Z') c = has_col X' c" for c
          by (simp_all only: has_col_def columns_dropna_rows cZ cY)
        have "calculate_statistics (Some (dropna_rows [''pm25'', ''pm10''] Z))
          = calculate_statistics (Some (dropna_rows [''pm25'', ''pm10''] Z'))"
          by (rule calculate_statistics_view[OF view_dropna_pollutants[OF vZ]])
            (simp_all only: hc c insert_iff simp_thms)
        then show ?thesis by (simp only: Inr Y' Z Z' sum.case)
      qed
    qed
  qed
qed

lemma statistics_relabel:
  assumes "legacy_only df"
  shows "calculate_statistics (load_data (Csv (relabel df)) s e)
     = calculate_statistics (load_data (Csv df) s e)"
proof (cases "has_col df ''created_at''")
  case False
  then show ?thesis by (simp add: load_data_Csv has_col_relabel)
next
  case True
  define P where "P = sort_values (filter_rows (\<lambda>r. created_at r \<noteq> NaT) (to_datetime_coerce df))"
  have cols: "columns P = columns df" unfolding P_def by (rule columns_prepare)
  have lo: "legacy_only P" using legacy_only_columns[OF cols] assms by simp
  have v: "map semantic_view (rows (map_fields (relabel P)))
     = map semantic_view (rows (map_fields P))"
    by (rule map_fields_relabel_view[OF lo])
  have c: "has_col (map_fields (relabel P)) c = has_col (map_fields P) c"
    if "c \<in> {''created_at'', ''pm25'', ''pm10'', ''temperature'', ''humidity''}" for c
    using that by (auto simp add: has_col_map_fields has_col_relabel)
  show ?thesis
    unfolding load_data_Csv relabel_prepare P_def[symmetric]
    using True load_tail_view[OF v c, where s = s and e = e]
    by (simp add: has_col_relabel)
qed

lemmas resolved_defs = analyze_resolved_def basic_statistics_def pm25_statistics_def
  pm10_statistics_def temperature_statistics_def humidity_statistics_def
  extended_analysis_def calculate_correlations_def pair_corr_def assess_data_quality_def
  select_col_def calculate_hourly_patterns_def calculate_daily_patterns_def

lemma analyze_resolved_cong:
  assumes "len Y' = len Y" and "time_min Y' = time_min Y" and "time_max Y' = time_max Y"
    and "col Y' a' = col Y a" and "has_col Y' a'" and "has_col Y a"
    and "col Y' b' = col Y b" and "has_col Y' b'" and "has_col Y b"
    and "(c' = None \<and> c = None)
       \<or> (\<exists>n' n. c' = Some n' \<and> c = Some n \<and> col Y' n' = col Y n \<and> has_col Y' n' \<and> has_col Y n)"
    and "(d' = None \<and> d = None)
       \<or> (\<exists>n' n. d' = Some n' \<and> d = Some n \<and> col Y' n' = col Y n \<and> has_col Y' n' \<and> has_col Y n)"
    and "map created_at (rows Y') = map created_at (rows Y)"
  shows "analyze_resolved Y' a' b' c' d' ext = analyze_resolved Y a b c d ext"
proof -
  note base = assms(1-9) assms(12)
  from assms(10) show ?thesis
  proof (elim disjE conjE exE)
    assume c: "c' = None" "c = None"
    from assms(11) show ?thesis
    proof (elim disjE conjE exE)
      assume d: "d' = None" "d = None"
      show ?thesis unfolding resolved_defs c d option.case
        by (simp only: base simp_thms if_True if_False)
    next
      fix m' m assume d: "d' = Some m'" "d = Some m"
        and dm: "col Y' m' = col Y m" "has_col Y' m'" "has_col Y m"
      show ?thesis unfolding resolved_defs c d option.case
        by (simp only: base dm simp_thms if_True if_False)
    qed
  next
    fix n' n assume c: "c' = Some n'" "c = Some n"
      and cn: "col Y' n' = col Y n" "has_col Y' n'" "has_col Y n"
    from assms(11) show ?thesis
    proof (elim disjE conjE exE)
      assume d: "d' = None" "d = None"
      show ?thesis unfolding resolved_defs c d option.case
        by (simp only: base cn simp_thms if_True if_False)
    next
      fix m' m assume d: "d' = Some m'" "d = Some m"
        and dm: "col Y' m' = col Y m" "has_col Y' m'" "has_col Y m"
      show ?thesis unfolding resolved_defs c d option.case
        by (simp only: base cn dm simp_thms if_True if_False)
    qed
  qed
qed

lemma filter_start_relabel:
  "filter_start d (relabel X) = (case filter_start d X of Inl x \<Rightarrow> Inl x | Inr Y \<Rightarrow> Inr (relabel Y))"
  by (cases d) (simp_all add: filter_start_def relabel_filter_rows)

lemma filter_end_relabel:
  "filter_end d (relabel X) = (case filter_end d X of Inl x \<Rightarrow> Inl x | Inr Y \<Rightarrow> Inr (relabel Y))"
  by (cases d) (simp_all add: filter_end_def relabel_filter_rows)

lemma times_relabel: "time_min (relabel Y) = time_min Y" "time_max (relabel Y) = time_max Y"
  by (simp_all only: time_min_def time_max_def created_at_relabel)

lemma resolve_legacy_only:
  assumes "legacy_only Y"
  shows "pm25_col Y = (if has_col Y ''field3'' then Some ''field3'' else None)"
    "pm10_col Y = (if has_col Y ''field4'' then Some ''field4'' else None)"
    "temp_col Y = (if has_col Y ''field2'' then Some ''field2'' else None)"
    "humidity_col Y = (if has_col Y ''field1'' then Some ''field1'' else None)"
    "pm25_col (relabel Y) = (if has_col Y ''field3'' then Some ''pm25'' else None)"
    "pm10_col (relabel Y) = (if has_col Y ''field4'' then Some ''pm10'' else None)"
    "temp_col (relabel Y) = (if has_col Y ''field2'' then Some ''temperature'' else None)"
    "humidity_col (relabel Y) = (if has_col Y ''field1'' then Some ''humidity'' else None)"
  using assms
  by (simp_all add: legacy_only_def pm25_col_def pm10_col_def temp_col_def humidity_col_def
      has_col_relabel)

lemma analyze_resolved_relabel:
  assumes "legacy_only Y" and "has_col Y ''field3''" and "has_col Y ''field4''"
  shows "analyze_resolved (relabel Y) ''pm25'' ''pm10'' (temp_col (relabel Y))
       (humidity_col (relabel Y)) ext
     = analyze_resolved Y ''field3'' ''field4'' (temp_col Y) (humidity_col Y) ext"
proof (rule analyze_resolved_cong)
  show "map created_at (rows (relabel Y)) = map created_at (rows Y)" by (rule created_at_relabel)
  show "len (relabel Y) = len Y" by (rule len_relabel)
  show "time_min (relabel Y) = time_min Y" "time_max (relabel Y) = time_max Y"
    by (rule times_relabel)+
  show "col (relabel Y) ''pm25'' = col Y ''field3''" "col (relabel Y) ''pm10'' = col Y ''field4''"
    by (rule col_relabel)+
  show "has_col (relabel Y) ''pm25''" "has_col (relabel Y) ''pm10''"
    using assms(2,3) by (simp_all add: has_col_relabel)
  show "has_col Y ''field3''" "has_col Y ''field4''" by (rule assms)+
  show "(temp_col (relabel Y) = None \<and> temp_col Y = None)
       \<or> (\<exists>n' n. temp_col (relabel Y) = Some n' \<and> temp_col Y = Some n
            \<and> col (relabel Y) n' = col Y n \<and> has_col (relabel Y) n' \<and> has_col Y n)"
    unfolding resolve_legacy_only[OF assms(1)]
    by (cases "has_col Y ''field2''") (simp_all add: col_relabel has_col_relabel)
  show "(humidity_col (relabel Y) = None \<and> humidity_col Y = None)
       \<or> (\<exists>n' n. humidity_col (relabel Y) = Some n' \<and> humidity_col Y = Some n
            \<and> col (relabel Y) n' = col Y n \<and> has_col (relabel Y) n' \<and> has_col Y n)"
    unfolding resolve_legacy_only[OF assms(1)]
    by (cases "has_col Y ''field1''") (simp_all add: col_relabel has_col_relabel)
qed

lemma analysis_relabel:
  assumes "legacy_only df"
  shows "analyze_air_quality_data p (Csv (relabel df)) s e ext
     = analyze_air_quality_data p (Csv df) s e ext"
proof (cases "filter_start s (to_datetime_coerce df)")
  case (Inl x)
  then show ?thesis
    by (simp add: analyze_air_quality_data_def len_relabel has_col_relabel
        relabel_to_datetime_coerce filter_start_relabel)
next
  case (Inr Y1)
  show ?thesis
  proof (cases "filter_end e Y1")
    case (Inl x)
    with Inr show ?thesis
      by (simp add: analyze_air_quality_data_def len_relabel has_col_relabel
          relabel_to_datetime_coerce filter_start_relabel filter_end_relabel)
  next
    case Y: (Inr Y)
    have "columns Y = columns (to_datetime_coerce df)"
      using columns_filter_start[OF Inr] columns_filter_end[OF Y] by simp
    then have cols: "columns Y = columns df" by simp
    have lo: "legacy_only Y" using legacy_only_columns[OF cols] assms by simp
    have tail: "(case pm25_col (relabel Y) of
          None \<Rightarrow> initial_result\<lparr>error := Some MissingRequiredColumns\<rparr>
        | Some a \<Rightarrow> (case pm10_col (relabel Y) of
             None \<Rightarrow> initial_result\<lparr>error := Some MissingRequiredColumns\<rparr>
           | Some b \<Rightarrow> analyze_resolved (relabel Y) a b (temp_col (relabel Y))
                 (humidity_col (relabel Y)) ext))
      = (case pm25_col Y of
          None \<Rightarrow> initial_result\<lparr>error := Some MissingRequiredColumns\<rparr>
        | Some a \<Rightarrow> (case pm10_col Y of
             None \<Rightarrow> initial_result\<lparr>error := Some MissingRequiredColumns\<rparr>
           | Some b \<Rightarrow> analyze_resolved Y a b (temp_col Y) (humidity_col Y) ext))"
    proof (cases "has_col Y ''field3'' \<and> has_col Y ''field4''")
      case True
      then show ?thesis
        unfolding resolve_legacy_only(1,2,5,6)[OF lo]
        using analyze_resolved_relabel[OF lo, of ext] by simp
    next
      case False
      then show ?thesis
        unfolding resolve_legacy_only(1,2,5,6)[OF lo] by auto
    qed
    show ?thesis
      unfolding analyze_air_quality_data_def csv_file.case len_relabel has_col_relabel
        relabel_to_datetime_coerce filter_start_relabel Inr sum.case filter_end_relabel Y tail ..
  qed
qed

lemma legacy_frame_has_col:
  "has_col legacy_frame ''created_at''" "has_col legacy_frame ''field3''"
  "has_col legacy_frame ''field4''" "\<not> has_col legacy_frame ''field1''"
  "\<not> has_col legacy_frame ''field2''" "\<not> has_col legacy_frame ''pm25''"
  "\<not> has_col legacy_frame ''pm10''" "\<not> has_col legacy_frame ''temperature''"
  "\<not> has_col legacy_frame ''humidity''"
  by (simp_all add: legacy_frame_def has_col_def)

lemma legacy_frame_legacy_only: "legacy_only legacy_frame"
  by (simp add: legacy_only_def legacy_frame_has_col)

lemma legacy_frame_reached:
  "len legacy_frame \<noteq> 0"
  "filter_start NoDate (to_datetime_coerce legacy_frame) = Inr legacy_frame"
  "filter_end NoDate legacy_frame = Inr legacy_frame"
  by (simp_all add: legacy_frame_def len_def filter_start_def filter_end_def
      to_datetime_coerce_def)

lemma legacy_frame_pm25: "dropna (col legacy_frame ''field3'') = [5, 15]"
  by (simp add: legacy_frame_def col_def)

lemma legacy_frame_columns:
  "pm25_col legacy_frame = Some ''field3''" "pm10_col legacy_frame = Some ''field4''"
  by (simp_all add: pm25_col_def pm10_col_def legacy_frame_has_col)

lemma legacy_frame_average:
  "average_pm25 (analyze_air_quality_data ''data.csv'' (Csv legacy_frame) NoDate NoDate False) = 10"
  unfolding analyze_reached[OF legacy_frame_reached(1) legacy_frame_has_col(1)
      legacy_frame_reached(2,3,1)] legacy_frame_columns option.case
    analyze_resolved_fields basic_pm25_valid[OF legacy_frame_pm25]
  by (simp add: list_mean_def)

lemma view_filter_fun:
  assumes "\<And>r. P r = Q (semantic_view r)"
  shows "map semantic_view (rows (filter_rows P X)) = filter Q (map semantic_view (rows X))"
proof -
  have P: "P = Q \<circ> semantic_view" using assms by (simp add: fun_eq_iff)
  show ?thesis unfolding rows_filter_rows P filter_map ..
qed

lemma view_dropna_fun:
  "map semantic_view (rows (dropna_rows [''pm25'', ''pm10''] X))
     = filter (\<lambda>v. fst (snd v) \<noteq> None \<and> fst (snd (snd v)) \<noteq> None) (map semantic_view (rows X))"
  unfolding dropna_rows_def
  by (rule view_filter_fun) (simp add: semantic_view_def)

lemma legacy_frame_prepared:
  "sort_values (filter_rows (\<lambda>r. created_at r \<noteq> NaT) (to_datetime_coerce legacy_frame))
     = legacy_frame"
  by (simp add: legacy_frame_def sort_values_def filter_rows_def to_datetime_coerce_def)

lemma legacy_frame_cols:
  "col legacy_frame ''field3'' = [Some 5, Some 15]" "col legacy_frame ''field4'' = [Some 8, Some 12]"
  "map created_at (rows legacy_frame) = [Time 0, Time 3600]"
  "map (\<lambda>r. None :: real option) (rows legacy_frame) = [None, None]"
  by (simp_all add: legacy_frame_def col_def)

lemma legacy_frame_view:
  "map semantic_view (rows (map_fields legacy_frame))
     = [(Time 0, Some 5, Some 8, None, None), (Time 3600, Some 15, Some 12, None, None)]"
  unfolding view_by_columns created_at_map_fields map_fields_pm25 map_fields_pm10
    map_fields_temperature map_fields_humidity
  by (simp add: legacy_frame_has_col legacy_frame_cols)

lemma legacy_frame_loaded:
  "load_data (Csv legacy_frame) NoDate NoDate
     = Some (dropna_rows [''pm25'', ''pm10''] (map_fields legacy_frame))"
  unfolding load_data_Csv legacy_frame_prepared
  by (simp add: legacy_frame_has_col filter_start_def filter_end_def)

lemma legacy_frame_loaded_pm25:
  "col (dropna_rows [''pm25'', ''pm10''] (map_fields legacy_frame)) ''pm25'' = [Some 5, Some 15]"
  unfolding col_def view_cells view_dropna_fun legacy_frame_view by simp

lemma legacy_frame_statistics:
  "\<exists>st. calculate_statistics (load_data (Csv legacy_frame) NoDate NoDate) = Inr (Statistics st)
      \<and> s_mean (pm25 st) = Some 10"
proof -
  let ?X = "dropna_rows [''pm25'', ''pm10''] (map_fields legacy_frame)"
  have v: "map semantic_view (rows ?X)
     = [(Time 0, Some 5, Some 8, None, None), (Time 3600, Some 15, Some 12, None, None)]"
    unfolding view_dropna_fun legacy_frame_view by simp
  have "len ?X \<noteq> 0"
    unfolding len_def using arg_cong[OF v, of length] by simp
  moreover have "time_min ?X \<noteq> None"
    unfolding time_min_def view_created_at v by simp
  moreover have "has_col ?X ''created_at''" "has_col ?X ''pm25''" "has_col ?X ''pm10''"
    by (simp_all add: has_col_def has_col_map_fields[unfolded has_col_def]
        legacy_frame_has_col[unfolded has_col_def])
  ultimately obtain st where st: "calculate_statistics (Some ?X) = Inr (Statistics st)"
    using statistics_defined by blast
  from statistics_pollutants[OF st] have "s_mean (pm25 st) = Some 10"
    unfolding legacy_frame_loaded_pm25 by (simp add: series_mean_def)
  with st show ?thesis unfolding legacy_frame_loaded by blast
qed

text \<open>
  Claim C6.  For a file that has none of the four semantic column names, the statistics that
  \<open>calculate_statistics\<close> computes from the loaded data (count, date range, and mean, median,
  minimum, maximum, standard deviation and level per metric) and the whole result of
  \<open>analyze_air_quality_data\<close> are the same for the file and for the file with its legacy
  columns relabelled to the semantic names, for all date arguments.  In the witness
  \<open>field3\<close> is 5 and 15 and the PM2.5 mean is 10.
\<close>

theorem legacy_names_round_trip:
  assumes "legacy_only df"
  shows "calculate_statistics (load_data (Csv (relabel df)) start_date end_date)
       = calculate_statistics (load_data (Csv df) start_date end_date)
     \<and> analyze_air_quality_data csv_path (Csv (relabel df)) start_date end_date extended
       = analyze_air_quality_data csv_path (Csv df) start_date end_date extended"
  using statistics_relabel[OF assms] analysis_relabel[OF assms] by (intro conjI)

theorem legacy_names_round_trip_witness:
  "legacy_only legacy_frame
   \<and> calculate_statistics (load_data (Csv (relabel legacy_frame)) NoDate NoDate)
     = calculate_statistics (load_data (Csv legacy_frame) NoDate NoDate)
   \<and> (\<exists>st. calculate_statistics (load_data (Csv (relabel legacy_frame)) NoDate NoDate)
           = Inr (Statistics st) \<and> s_mean (pm25 st) = Some 10)
   \<and> average_pm25
       (analyze_air_quality_data ''data.csv'' (Csv (relabel legacy_frame)) NoDate NoDate False) = 10
   \<and> average_pm25
       (analyze_air_quality_data ''data.csv'' (Csv legacy_frame) NoDate NoDate False) = 10"
  using legacy_names_round_trip[OF legacy_frame_legacy_only,
      where csv_path = "''data.csv''" and start_date = NoDate and end_date = NoDate
        and extended = False]
    legacy_frame_legacy_only legacy_frame_average legacy_frame_statistics
  by simp

end
